theory Spec2Isabelle
  imports Main "HOL-Library.AList" "HOL-Library.Sublist"
begin

section \<open>Python values\<close>

text \<open>
  The values the pipeline threads between its stages and stores in its checkpoints are
  what \<^verbatim>\<open>json.load\<close> produces: \<^verbatim>\<open>None\<close>, booleans, integers, strings, lists and
  dictionaries with string keys (kept in insertion order). No stage inspects a number,
  so numbers are integers.
\<close>

datatype pyval =
    PNone
  | PBool bool
  | PInt int
  | PStr string
  | PList "pyval list"
  | PDict "(string \<times> pyval) list"

text \<open>An exception: its class name and its message (\<^verbatim>\<open>str(e)\<close>). The message texts of the
  exceptions the interpreter raises itself are not modelled and are left empty.\<close>

datatype exn = Exn string string

definition exn_str :: "exn \<Rightarrow> string" where
  "exn_str e = (case e of Exn c m \<Rightarrow> m)"

definition AttributeError :: exn where "AttributeError = Exn ''AttributeError'' []"
definition TypeError :: exn where "TypeError = Exn ''TypeError'' []"
definition FileExistsError :: exn where "FileExistsError = Exn ''FileExistsError'' []"
definition FileNotFoundError :: exn where "FileNotFoundError = Exn ''FileNotFoundError'' []"
definition IsADirectoryError :: exn where "IsADirectoryError = Exn ''IsADirectoryError'' []"
definition NotADirectoryError :: exn where "NotADirectoryError = Exn ''NotADirectoryError'' []"
definition JSONDecodeError :: exn where "JSONDecodeError = Exn ''JSONDecodeError'' []"
definition ValueError :: "string \<Rightarrow> exn" where "ValueError m = Exn ''ValueError'' m"

text \<open>Truth value of an object, as \<^verbatim>\<open>if x:\<close> tests it.\<close>

fun truthy :: "pyval \<Rightarrow> bool" where
  "truthy PNone = False"
| "truthy (PBool b) = b"
| "truthy (PInt i) = (i \<noteq> 0)"
| "truthy (PStr s) = (s \<noteq> [])"
| "truthy (PList xs) = (xs \<noteq> [])"
| "truthy (PDict kvs) = (kvs \<noteq> [])"

text \<open>\<^verbatim>\<open>d.get(k, default)\<close>: only a dictionary has the method.\<close>

definition dict_get :: "pyval \<Rightarrow> string \<Rightarrow> pyval \<Rightarrow> exn + pyval" where
  "dict_get d k dflt =
     (case d of
        PDict kvs \<Rightarrow> Inr (case map_of kvs k of Some v \<Rightarrow> v | None \<Rightarrow> dflt)
      | _ \<Rightarrow> Inl AttributeError)"

text \<open>\<^verbatim>\<open>len(x)\<close>.\<close>

definition py_len :: "pyval \<Rightarrow> exn + nat" where
  "py_len v =
     (case v of
        PStr s \<Rightarrow> Inr (length s)
      | PList xs \<Rightarrow> Inr (length xs)
      | PDict kvs \<Rightarrow> Inr (length kvs)
      | _ \<Rightarrow> Inl TypeError)"

text \<open>\<^verbatim>\<open>'error' in x\<close>: key membership for a dictionary, element membership for a list,
  substring test for a string.\<close>

definition py_contains :: "string \<Rightarrow> pyval \<Rightarrow> exn + bool" where
  "py_contains k v =
     (case v of
        PDict kvs \<Rightarrow> Inr (map_of kvs k \<noteq> None)
      | PList xs \<Rightarrow> Inr (PStr k \<in> set xs)
      | PStr s \<Rightarrow> Inr (sublist k s)
      | _ \<Rightarrow> Inl TypeError)"

subsection \<open>\<^verbatim>\<open>int(s)\<close> and \<^verbatim>\<open>str(n)\<close>\<close>

text \<open>
  \<^verbatim>\<open>int(s)\<close> on a string of ASCII characters: surrounding whitespace is stripped, one
  sign is allowed, then decimal digits, where single underscores may stand between two
  digits. Anything else raises \<^verbatim>\<open>ValueError\<close>, modelled as \<open>None\<close>.
\<close>

definition py_isspace :: "char \<Rightarrow> bool" where
  "py_isspace c = ((of_char c :: nat) \<in> {9, 10, 11, 12, 13, 32})"

definition py_strip :: "string \<Rightarrow> string" where
  "py_strip s = rev (dropWhile py_isspace (rev (dropWhile py_isspace s)))"

definition is_digit :: "char \<Rightarrow> bool" where
  "is_digit c = (48 \<le> (of_char c :: nat) \<and> (of_char c :: nat) \<le> 57)"

definition digit_val :: "char \<Rightarrow> nat" where
  "digit_val c = of_char c - 48"

fun parse_digits :: "nat \<Rightarrow> string \<Rightarrow> nat option" where
  "parse_digits acc [] = Some acc"
| "parse_digits acc [c] = (if is_digit c then Some (10 * acc + digit_val c) else None)"
| "parse_digits acc (c # d # ds) =
     (if is_digit c then parse_digits (10 * acc + digit_val c) (d # ds)
      else if c = CHR ''_'' \<and> is_digit d then parse_digits (10 * acc + digit_val d) ds
      else None)"

definition parse_nat :: "string \<Rightarrow> nat option" where
  "parse_nat s =
     (case s of
        [] \<Rightarrow> None
      | c # cs \<Rightarrow> if is_digit c then parse_digits (digit_val c) cs else None)"

definition py_int :: "string \<Rightarrow> int option" where
  "py_int s =
     (case py_strip s of
        [] \<Rightarrow> None
      | c # cs \<Rightarrow>
          if c = CHR ''-'' then map_option (\<lambda>n. - int n) (parse_nat cs)
          else if c = CHR ''+'' then map_option int (parse_nat cs)
          else map_option int (parse_nat (c # cs)))"

definition digit_char :: "nat \<Rightarrow> char" where
  "digit_char d = ''0123456789'' ! d"

fun nat_digits :: "nat \<Rightarrow> string" where
  "nat_digits n = (if n < 10 then [digit_char n] else nat_digits (n div 10) @ [digit_char (n mod 10)])"

declare nat_digits.simps [simp del]

definition py_str_int :: "int \<Rightarrow> string" where
  "py_str_int i = (if i < 0 then CHR ''-'' # nat_digits (nat (- i)) else nat_digits (nat i))"

section \<open>The output root on disk\<close>

text \<open>
  A file holds either text written with \<^verbatim>\<open>f.write\<close> (\<open>Raw\<close>) or a document written
  with \<^verbatim>\<open>json.dump\<close> (\<open>Doc\<close>, kept as the value that was dumped: reading it back with
  \<^verbatim>\<open>json.load\<close> gives that value, the round trip of the json library on the values of
  type \<open>pyval\<close>). A flow directory holds files and sub-directories of files; the output
  root holds directories and other entries, in the order in which \<^verbatim>\<open>iterdir\<close>
  enumerates them.
\<close>

datatype content = Raw string | Doc pyval

datatype entry = File content | Folder "(string \<times> content) list"

type_synonym slot_dir = "(string \<times> entry) list"

datatype node = Regular | Directory slot_dir

type_synonym root_dir = "(string \<times> node) list"

definition path_exists :: "slot_dir \<Rightarrow> string \<Rightarrow> bool" where
  "path_exists d name = (map_of d name \<noteq> None)"

text \<open>\<^verbatim>\<open>open(path, 'w')\<close> creates the file or truncates the one that is there.\<close>

definition open_w :: "slot_dir \<Rightarrow> string \<Rightarrow> exn + slot_dir" where
  "open_w d name =
     (case map_of d name of
        Some (Folder fs) \<Rightarrow> Inl IsADirectoryError
      | _ \<Rightarrow> Inr (AList.update name (File (Raw [])) d))"

definition put_file :: "slot_dir \<Rightarrow> string \<Rightarrow> content \<Rightarrow> slot_dir" where
  "put_file d name c = AList.update name (File c) d"

text \<open>\<^verbatim>\<open>with open(path, 'w') as f: json.dump(v, f)\<close> and the same with \<^verbatim>\<open>f.write(s)\<close>.\<close>

definition write_file :: "slot_dir \<Rightarrow> string \<Rightarrow> content \<Rightarrow> exn + slot_dir" where
  "write_file d name c =
     (case open_w d name of Inl e \<Rightarrow> Inl e | Inr d1 \<Rightarrow> Inr (put_file d1 name c))"

text \<open>\<^verbatim>\<open>with open(path, 'r') as f: json.load(f)\<close>; \<open>loads\<close> is the json parser on text.\<close>

definition read_json :: "(string \<Rightarrow> pyval option) \<Rightarrow> slot_dir \<Rightarrow> string \<Rightarrow> exn + pyval" where
  "read_json loads d name =
     (case map_of d name of
        None \<Rightarrow> Inl FileNotFoundError
      | Some (Folder fs) \<Rightarrow> Inl IsADirectoryError
      | Some (File (Doc v)) \<Rightarrow> Inr v
      | Some (File (Raw s)) \<Rightarrow> (case loads s of None \<Rightarrow> Inl JSONDecodeError | Some v \<Rightarrow> Inr v))"

text \<open>\<^verbatim>\<open>with open(path, 'r') as f: f.read()\<close>; \<open>dumps\<close> is the text of a dumped document.\<close>

definition read_text :: "(pyval \<Rightarrow> string) \<Rightarrow> slot_dir \<Rightarrow> string \<Rightarrow> exn + string" where
  "read_text dumps d name =
     (case map_of d name of
        None \<Rightarrow> Inl FileNotFoundError
      | Some (Folder fs) \<Rightarrow> Inl IsADirectoryError
      | Some (File (Doc v)) \<Rightarrow> Inr (dumps v)
      | Some (File (Raw s)) \<Rightarrow> Inr s)"

section \<open>utils/checkpoint.py: CheckpointManager\<close>

definition CHECKPOINT_FILE :: string where
  "CHECKPOINT_FILE = ''checkpoint.json''"

definition make_checkpoint :: "string \<Rightarrow> string \<Rightarrow> pyval \<Rightarrow> pyval \<Rightarrow> pyval" where
  "make_checkpoint step now data metadata =
     PDict [(''step'', PStr step), (''timestamp'', PStr now), (''data'', data),
            (''metadata'', if truthy metadata then metadata else PDict [])]"

text \<open>
  \<^verbatim>\<open>save_checkpoint\<close> opens the checkpoint file itself for writing and dumps the record
  into it. These are the states of the directory the call passes through: before the
  call, after \<^verbatim>\<open>open(..., 'w')\<close> and after \<^verbatim>\<open>json.dump\<close>. A failure to open is caught and
  logged, and the directory stays as it was.
\<close>

definition save_checkpoint_states ::
    "string \<Rightarrow> slot_dir \<Rightarrow> string \<Rightarrow> pyval \<Rightarrow> pyval \<Rightarrow> slot_dir list" where
  "save_checkpoint_states now d step data metadata =
     (case open_w d CHECKPOINT_FILE of
        Inl e \<Rightarrow> [d]
      | Inr d1 \<Rightarrow>
          [d, d1, put_file d1 CHECKPOINT_FILE (Doc (make_checkpoint step now data metadata))])"

definition save_checkpoint :: "string \<Rightarrow> slot_dir \<Rightarrow> string \<Rightarrow> pyval \<Rightarrow> pyval \<Rightarrow> slot_dir" where
  "save_checkpoint now d step data metadata =
     last (save_checkpoint_states now d step data metadata)"

text \<open>The \<^verbatim>\<open>try\<close> block of \<^verbatim>\<open>load_checkpoint\<close>: the file is parsed, then the log line reads
  \<^verbatim>\<open>checkpoint.get('step', 'unknown')\<close> and \<^verbatim>\<open>checkpoint.get('timestamp', 'unknown')\<close>.\<close>

definition load_checkpoint_try :: "(string \<Rightarrow> pyval option) \<Rightarrow> slot_dir \<Rightarrow> exn + pyval" where
  "load_checkpoint_try loads d =
     (case read_json loads d CHECKPOINT_FILE of
        Inl e \<Rightarrow> Inl e
      | Inr c \<Rightarrow>
          (case dict_get c ''step'' (PStr ''unknown'') of
             Inl e \<Rightarrow> Inl e
           | Inr s \<Rightarrow>
               (case dict_get c ''timestamp'' (PStr ''unknown'') of
                  Inl e \<Rightarrow> Inl e
                | Inr t \<Rightarrow> Inr c)))"

text \<open>\<^verbatim>\<open>load_checkpoint\<close>: \<open>Inr PNone\<close> is the return value \<^verbatim>\<open>None\<close>, \<open>Inl e\<close> would be an
  exception reaching the caller.\<close>

definition load_checkpoint :: "(string \<Rightarrow> pyval option) \<Rightarrow> slot_dir \<Rightarrow> exn + pyval" where
  "load_checkpoint loads d =
     (if \<not> path_exists d CHECKPOINT_FILE then Inr PNone
      else (case load_checkpoint_try loads d of
              Inl e \<Rightarrow> Inr PNone
            | Inr c \<Rightarrow> Inr c))"

definition result_filename :: "string \<Rightarrow> string option \<Rightarrow> string" where
  "result_filename step_name filename =
     (case filename of None \<Rightarrow> step_name @ ''_result.json'' | Some f \<Rightarrow> f)"

text \<open>\<^verbatim>\<open>save_step_result\<close> returns the path it wrote, or \<^verbatim>\<open>None\<close> when the write failed;
  \<open>pystr\<close> is \<^verbatim>\<open>str(result)\<close> for a value that is neither dict, list nor string.\<close>

definition save_step_result ::
    "(pyval \<Rightarrow> string) \<Rightarrow> slot_dir \<Rightarrow> string \<Rightarrow> pyval \<Rightarrow> string option \<Rightarrow> string option \<times> slot_dir" where
  "save_step_result pystr d step_name result filename =
     (let fname = result_filename step_name filename;
          c = (case result of
                 PDict kvs \<Rightarrow> Doc result
               | PList xs \<Rightarrow> Doc result
               | PStr s \<Rightarrow> Raw s
               | _ \<Rightarrow> Doc (PDict [(''result'', PStr (pystr result))]))
      in case write_file d fname c of
           Inl e \<Rightarrow> (None, d)
         | Inr d' \<Rightarrow> (Some fname, d'))"

text \<open>\<^verbatim>\<open>load_step_result\<close>: the value read, \<open>PNone\<close> for \<^verbatim>\<open>None\<close>.\<close>

definition load_step_result ::
    "(string \<Rightarrow> pyval option) \<Rightarrow> (pyval \<Rightarrow> string) \<Rightarrow> slot_dir \<Rightarrow> string \<Rightarrow> string option \<Rightarrow> pyval" where
  "load_step_result loads dumps d step_name filename =
     (let fname = result_filename step_name filename
      in if \<not> path_exists d fname then PNone
         else if suffix ''.json'' fname
           then (case read_json loads d fname of Inl e \<Rightarrow> PNone | Inr v \<Rightarrow> v)
           else (case read_text dumps d fname of Inl e \<Rightarrow> PNone | Inr s \<Rightarrow> PStr s))"

definition step_result_exists :: "slot_dir \<Rightarrow> string \<Rightarrow> string option \<Rightarrow> bool" where
  "step_result_exists d step_name filename = path_exists d (result_filename step_name filename)"

section \<open>config/settings.py: flow directories\<close>

definition is_flow_dir :: "string \<times> node \<Rightarrow> bool" where
  "is_flow_dir item = ((case snd item of Directory d \<Rightarrow> True | Regular \<Rightarrow> False) \<and> prefix ''flow'' (fst item))"

text \<open>The loop of \<^verbatim>\<open>get_next_flow_id\<close>: the numbers of the flow directories, in the order
  of the enumeration; a name whose tail is no integer is skipped.\<close>

fun existing_flows :: "root_dir \<Rightarrow> int list" where
  "existing_flows [] = []"
| "existing_flows (item # items) =
     (if is_flow_dir item
      then (case py_int (drop 4 (fst item)) of
              Some flow_num \<Rightarrow> flow_num # existing_flows items
            | None \<Rightarrow> existing_flows items)
      else existing_flows items)"

text \<open>\<^verbatim>\<open>max(xs)\<close> on a list that is not empty.\<close>

definition py_max :: "int list \<Rightarrow> int" where
  "py_max xs = foldl max (hd xs) (tl xs)"

text \<open>\<^verbatim>\<open>get_next_flow_id\<close>; \<open>None\<close> is an output root that does not exist.\<close>

definition get_next_flow_id :: "root_dir option \<Rightarrow> int" where
  "get_next_flow_id out =
     (case out of
        None \<Rightarrow> 1
      | Some items \<Rightarrow>
          (let flows = existing_flows items
           in if flows = [] then 1 else py_max flows + 1))"

text \<open>The specification of \<^verbatim>\<open>next_slot_id\<close>, in the words of the spec: the integers parsed
  from the tails of the directories that match the flow-slot naming pattern.\<close>

definition slot_ids :: "root_dir \<Rightarrow> int set" where
  "slot_ids items =
     {n. \<exists>name d. (name, Directory d) \<in> set items \<and> prefix ''flow'' name \<and> py_int (drop 4 name) = Some n}"

definition flow_name :: "int \<Rightarrow> string" where
  "flow_name flow_id = ''flow'' @ py_str_int flow_id"

text \<open>\<^verbatim>\<open>get_flow_output_dir\<close>: \<^verbatim>\<open>mkdir(parents=True, exist_ok=True)\<close> on the flow directory.\<close>

definition get_flow_output_dir :: "root_dir \<Rightarrow> int \<Rightarrow> exn + root_dir" where
  "get_flow_output_dir items flow_id =
     (case map_of items (flow_name flow_id) of
        None \<Rightarrow> Inr (items @ [(flow_name flow_id, Directory [])])
      | Some (Directory d) \<Rightarrow> Inr items
      | Some Regular \<Rightarrow> Inl FileExistsError)"

section \<open>main.py: the collaborators and the state of a run\<close>

text \<open>
  An input document, as \<^verbatim>\<open>HTMLParser.load_html_files\<close> and the downloader build it: it always
  has its content, and a url, a path or neither.
\<close>

record html_file =
  url :: "string option"
  path :: "string option"
  content :: string

text \<open>\<^verbatim>\<open>html_file.get('url', html_file.get('path', 'unknown'))\<close>\<close>

definition file_identifier :: "html_file \<Rightarrow> string" where
  "file_identifier f =
     (case url f of
        Some u \<Rightarrow> u
      | None \<Rightarrow> (case path f of Some p \<Rightarrow> p | None \<Rightarrow> ''unknown''))"

text \<open>The dictionary \<^verbatim>\<open>CodeValidatorAgent.validate_code\<close> builds and returns.\<close>

record validation =
  v_valid :: bool
  v_syntax_errors :: "pyval list"
  v_robustness_issues :: "pyval list"
  v_interface_issues :: "pyval list"
  v_suggestions :: pyval
  v_fixed_code :: "string option"
  v_warnings :: "pyval list"

definition validation_dict :: "validation \<Rightarrow> pyval" where
  "validation_dict v =
     PDict [(''valid'', PBool (v_valid v)),
            (''syntax_errors'', PList (v_syntax_errors v)),
            (''robustness_issues'', PList (v_robustness_issues v)),
            (''interface_issues'', PList (v_interface_issues v)),
            (''suggestions'', v_suggestions v),
            (''fixed_code'', (case v_fixed_code v of None \<Rightarrow> PNone | Some c \<Rightarrow> PStr c)),
            (''warnings'', PList (v_warnings v))]"

text \<open>\<^verbatim>\<open>validation_result.get("fixed_code")\<close> as a condition.\<close>

definition has_fixed_code :: "validation \<Rightarrow> bool" where
  "has_fixed_code v = (case v_fixed_code v of None \<Rightarrow> False | Some c \<Rightarrow> c \<noteq> [])"

text \<open>
  What running generated code on the spread directory leaves behind:
  \<^verbatim>\<open>_execute_extraction_code\<close> and \<^verbatim>\<open>_execute_markdown_conversion\<close> either return before
  they create their results directory, or create it, write result files into it and,
  when they reach their end, a summary file beside it. Both catch their own exceptions,
  and their callers catch the rest.
\<close>

datatype execution = NoExecution | Executed "(string \<times> content) list" "pyval option"

datatype compile_result = Compiled | SyntaxError string | CompileError exn

text \<open>
  The external collaborators, and the library functions the code calls on values this
  model keeps abstract. Within one run each is a function of its arguments.
  \<^item> \<open>json_loads\<close>, \<open>json_dumps\<close>, \<open>py_str\<close>: \<^verbatim>\<open>json.loads\<close> on text (\<open>None\<close> when it
    raises), \<^verbatim>\<open>json.dumps\<close> and \<^verbatim>\<open>str\<close>;
  \<^item> \<open>analyze_html_structure\<close>, \<open>analyze_html_visually\<close>, \<open>generate_final_schema\<close>,
    \<open>analyze_content_fields\<close>: agents that catch every exception and return a value;
  \<^item> \<open>coordinate_analysis\<close>, \<open>validate_code\<close>, \<open>generate_markdown_converter_code\<close>:
    agents that may raise;
  \<^item> \<open>build_prompt\<close>, \<open>api_attempt\<close>, \<open>fallback_rest\<close>: the parts of
    \<^verbatim>\<open>CodeGeneratorAgent.generate_extraction_code\<close> (the prompt built from the schema,
    together with the schema it was built from, which is the simplified one for a large
    schema; building it fails on a schema that is no dictionary; the body of the \<^verbatim>\<open>try\<close> of one attempt, from
    the API call to the code text it returns; the text of the fallback template after its
    two header lines);
  \<^item> \<open>fix_booleans\<close>: the two \<^verbatim>\<open>re.sub\<close> of \<^verbatim>\<open>fix_code\<close>;
  \<^item> \<open>run_extraction\<close>, \<open>run_conversion\<close>: the generated code run on the spread directory;
  \<^item> \<open>try_compile\<close>, \<open>fix_markdown_converter_syntax\<close>: \<^verbatim>\<open>compile(code, '<string>', 'exec')\<close>
    and the repair of a syntax error;
  \<^item> \<open>glob_json\<close>: the order in which \<^verbatim>\<open>glob('*.json')\<close> lists the files of a directory.
\<close>

record env =
  json_loads :: "string \<Rightarrow> pyval option"
  json_dumps :: "pyval \<Rightarrow> string"
  py_str :: "pyval \<Rightarrow> string"
  analyze_html_structure :: "string \<Rightarrow> string \<Rightarrow> pyval"
  analyze_html_visually :: "string \<Rightarrow> string \<Rightarrow> pyval"
  coordinate_analysis :: "string list \<Rightarrow> pyval \<Rightarrow> exn + pyval"
  generate_final_schema :: "pyval \<Rightarrow> pyval"
  build_prompt :: "pyval \<Rightarrow> exn + string \<times> pyval"
  api_attempt :: "nat \<Rightarrow> string \<Rightarrow> exn + string"
  fallback_rest :: "pyval \<Rightarrow> string"
  validate_code :: "pyval \<Rightarrow> pyval \<Rightarrow> exn + validation"
  fix_booleans :: "string \<Rightarrow> string"
  run_extraction :: "entry option \<Rightarrow> pyval \<Rightarrow> execution"
  analyze_content_fields :: "pyval list \<Rightarrow> pyval"
  generate_markdown_converter_code :: "pyval \<Rightarrow> pyval \<Rightarrow> bool \<Rightarrow> exn + string"
  try_compile :: "string \<Rightarrow> compile_result"
  fix_markdown_converter_syntax :: "string \<Rightarrow> string \<Rightarrow> string"
  run_conversion :: "entry option \<Rightarrow> entry option \<Rightarrow> execution"
  glob_json :: "(string \<times> content) list \<Rightarrow> (string \<times> content) list"

text \<open>The calls a run makes to its collaborators, in order.\<close>

datatype call =
    Analyze string string
  | AnalyzeVisually string string
  | CoordinateAnalysis "string list" pyval
  | GenerateFinalSchema pyval
  | GenerateExtractionCode pyval
  | ValidateCode pyval pyval
  | FixCode pyval
  | ExecuteExtraction int
  | AnalyzeContentFields "pyval list"
  | GenerateConverter pyval pyval bool
  | ExecuteConversion int

text \<open>
  The state of a run of \<^verbatim>\<open>_process_html_files\<close>: the output root, the clock that
  \<^verbatim>\<open>datetime.now()\<close> reads, the calls made so far, and the local variables of the function.
  A flow id that is not assigned yet is 0.
\<close>

record state =
  root :: root_dir
  clock :: nat
  calls :: "call list"
  analysis_results :: pyval
  visual_results :: pyval
  synthesized :: pyval
  json_schema :: pyval
  extraction_code :: pyval
  validation_result :: pyval
  markdown_converter_code :: pyval
  content_analysis :: pyval
  completed_steps :: "(string \<times> int) list"
  step1_flow_id :: int
  step2_flow_id :: int
  step3_flow_id :: int
  step4_flow_id :: int
  step5_flow_id :: int
  step6_flow_id :: int
  step7_flow_id :: "int option"

definition init_state :: "root_dir \<Rightarrow> nat \<Rightarrow> state" where
  "init_state r t =
     \<lparr>root = r, clock = t, calls = [],
      analysis_results = PNone, visual_results = PNone, synthesized = PNone,
      json_schema = PNone, extraction_code = PNone, validation_result = PNone,
      markdown_converter_code = PNone, content_analysis = PNone,
      completed_steps = [],
      step1_flow_id = 0, step2_flow_id = 0, step3_flow_id = 0, step4_flow_id = 0,
      step5_flow_id = 0, step6_flow_id = 0, step7_flow_id = None\<rparr>"

subsection \<open>Actions: a statement runs on the state and returns or raises\<close>

type_synonym 'a action = "state \<Rightarrow> (exn + 'a) \<times> state"

definition py_return :: "'a \<Rightarrow> 'a action" where
  "py_return x s = (Inr x, s)"

definition py_raise :: "exn \<Rightarrow> 'a action" where
  "py_raise e s = (Inl e, s)"

definition py_bind :: "'a action \<Rightarrow> ('a \<Rightarrow> 'b action) \<Rightarrow> 'b action" where
  "py_bind m f s = (case m s of (Inl e, s') \<Rightarrow> (Inl e, s') | (Inr x, s') \<Rightarrow> f x s')"

definition py_seq :: "unit action \<Rightarrow> 'a action \<Rightarrow> 'a action" where
  "py_seq m n = py_bind m (\<lambda>u. n)"

text \<open>\<^verbatim>\<open>try: m except Exception as e: h e\<close>\<close>

definition py_try :: "'a action \<Rightarrow> (exn \<Rightarrow> 'a action) \<Rightarrow> 'a action" where
  "py_try m h s = (case m s of (Inl e, s') \<Rightarrow> h e s' | (Inr x, s') \<Rightarrow> (Inr x, s'))"

definition py_lift :: "exn + 'a \<Rightarrow> 'a action" where
  "py_lift r s = (r, s)"

definition py_modify :: "(state \<Rightarrow> state) \<Rightarrow> unit action" where
  "py_modify f s = (Inr (), f s)"

definition log_call :: "call \<Rightarrow> unit action" where
  "log_call c s = (Inr (), s\<lparr>calls := calls s @ [c]\<rparr>)"

text \<open>\<^verbatim>\<open>datetime.now().isoformat()\<close>: the reading of the clock, as text.\<close>

definition isoformat :: "nat \<Rightarrow> string" where
  "isoformat t = py_str_int (int t)"

text \<open>Reading and writing a flow directory by its id.\<close>

definition slot_of :: "state \<Rightarrow> int \<Rightarrow> slot_dir" where
  "slot_of s fid = (case map_of (root s) (flow_name fid) of Some (Directory d) \<Rightarrow> d | _ \<Rightarrow> [])"

definition set_slot :: "int \<Rightarrow> slot_dir \<Rightarrow> state \<Rightarrow> state" where
  "set_slot fid d s =
     (case map_of (root s) (flow_name fid) of
        Some (Directory d0) \<Rightarrow> s\<lparr>root := AList.update (flow_name fid) (Directory d) (root s)\<rparr>
      | _ \<Rightarrow> s)"

definition next_flow_id :: "int action" where
  "next_flow_id s = (Inr (get_next_flow_id (Some (root s))), s)"

definition flow_output_dir :: "int \<Rightarrow> unit action" where
  "flow_output_dir fid s =
     (case get_flow_output_dir (root s) fid of
        Inl e \<Rightarrow> (Inl e, s)
      | Inr r \<Rightarrow> (Inr (), s\<lparr>root := r\<rparr>))"

definition cm_save_checkpoint :: "int \<Rightarrow> string \<Rightarrow> pyval \<Rightarrow> unit action" where
  "cm_save_checkpoint fid step data s =
     (Inr (), (set_slot fid (save_checkpoint (isoformat (clock s)) (slot_of s fid) step data PNone) s)
                \<lparr>clock := Suc (clock s)\<rparr>)"

definition cm_load_checkpoint :: "env \<Rightarrow> int \<Rightarrow> pyval action" where
  "cm_load_checkpoint E fid s = (load_checkpoint (json_loads E) (slot_of s fid), s)"

definition cm_save_step_result :: "env \<Rightarrow> int \<Rightarrow> string \<Rightarrow> pyval \<Rightarrow> string option \<Rightarrow> unit action" where
  "cm_save_step_result E fid step_name result filename s =
     (Inr (), set_slot fid (snd (save_step_result (py_str E) (slot_of s fid) step_name result filename)) s)"

definition cm_load_step_result :: "env \<Rightarrow> int \<Rightarrow> string \<Rightarrow> pyval action" where
  "cm_load_step_result E fid step_name s =
     (Inr (load_step_result (json_loads E) (json_dumps E) (slot_of s fid) step_name None), s)"

text \<open>\<^verbatim>\<open>with open(dir / name, 'w') as f: json.dump(v, f)\<close> in \<^verbatim>\<open>main.py\<close>: a failure raises.\<close>

definition write_json_at :: "int \<Rightarrow> string \<Rightarrow> pyval \<Rightarrow> unit action" where
  "write_json_at fid name v s =
     (case map_of (root s) (flow_name fid) of
        Some (Directory d) \<Rightarrow>
          (case write_file d name (Doc v) of
             Inl e \<Rightarrow> (Inl e, s)
           | Inr d' \<Rightarrow> (Inr (), set_slot fid d' s))
      | _ \<Rightarrow> (Inl FileNotFoundError, s))"

text \<open>\<^verbatim>\<open>with open(dir / name, 'w') as f: f.write(v)\<close>: the file is opened, and truncated,
  before \<^verbatim>\<open>write\<close> refuses a value that is no string.\<close>

definition write_text_at :: "int \<Rightarrow> string \<Rightarrow> pyval \<Rightarrow> unit action" where
  "write_text_at fid name v s =
     (case map_of (root s) (flow_name fid) of
        Some (Directory d) \<Rightarrow>
          (case open_w d name of
             Inl e \<Rightarrow> (Inl e, s)
           | Inr d1 \<Rightarrow>
               (case v of
                  PStr t \<Rightarrow> (Inr (), set_slot fid (put_file d1 name (Raw t)) s)
                | _ \<Rightarrow> (Inl TypeError, set_slot fid d1 s)))
      | _ \<Rightarrow> (Inl FileNotFoundError, s))"

text \<open>\<^verbatim>\<open>checkpoint.get('data', {}).get(key, default)\<close>\<close>

definition data_get :: "pyval \<Rightarrow> string \<Rightarrow> pyval \<Rightarrow> exn + pyval" where
  "data_get checkpoint key dflt =
     (case dict_get checkpoint ''data'' (PDict []) of
        Inl e \<Rightarrow> Inl e
      | Inr data \<Rightarrow> dict_get data key dflt)"

definition ids_list :: "string list \<Rightarrow> pyval" where
  "ids_list ids = PList (map PStr ids)"

section \<open>main.py: \<^verbatim>\<open>_process_html_files\<close>\<close>

subsection \<open>Loading the checkpoints of the existing flow directories\<close>

definition dir_of :: "node \<Rightarrow> slot_dir" where
  "dir_of nd = (case nd of Directory d \<Rightarrow> d | Regular \<Rightarrow> [])"

text \<open>The \<^verbatim>\<open>if\<close>/\<^verbatim>\<open>elif\<close> chain that maps a step to its key in \<^verbatim>\<open>completed_steps\<close>.\<close>

definition step_key :: "pyval \<Rightarrow> string option" where
  "step_key step =
     (if step = PStr ''text_analysis'' then Some ''step1''
      else if step = PStr ''visual_analysis'' then Some ''step2''
      else if step = PStr ''synthesized'' then Some ''step3''
      else if step = PStr ''schema'' then Some ''step4''
      else if step = PStr ''code'' then Some ''step5''
      else None)"

text \<open>
  The first loop of the resume scan, over the entries of the output root in the order of
  the enumeration: every flow directory whose checkpoint loads is recorded as
  (flow id, directory name, checkpoint), and \<^verbatim>\<open>completed_steps\<close> maps the step to the flow
  id. An exception inside the \<^verbatim>\<open>try\<close> skips the entry.
\<close>

fun resume_collect ::
    "(string \<Rightarrow> pyval option) \<Rightarrow> root_dir \<Rightarrow>
     (int \<times> string \<times> pyval) list \<times> (string \<times> int) list \<Rightarrow>
     (int \<times> string \<times> pyval) list \<times> (string \<times> int) list" where
  "resume_collect loads [] acc = acc"
| "resume_collect loads (item # items) acc =
     (if is_flow_dir item then
        (case py_int (drop 4 (fst item)) of
           None \<Rightarrow> resume_collect loads items acc
         | Some flow_num \<Rightarrow>
             (case load_checkpoint loads (dir_of (snd item)) of
                Inl e \<Rightarrow> resume_collect loads items acc
              | Inr checkpoint \<Rightarrow>
                  if truthy checkpoint then
                    (case dict_get checkpoint ''step'' (PStr ''unknown'') of
                       Inl e \<Rightarrow> resume_collect loads items acc
                     | Inr step \<Rightarrow>
                         resume_collect loads items
                           (fst acc @ [(flow_num, fst item, checkpoint)],
                            (case step_key step of
                               Some k \<Rightarrow> AList.update k flow_num (snd acc)
                             | None \<Rightarrow> snd acc)))
                  else resume_collect loads items acc))
      else resume_collect loads items acc)"

text \<open>\<^verbatim>\<open>data.get(key)\<close> on a dictionary.\<close>

definition field :: "pyval \<Rightarrow> string \<Rightarrow> pyval" where
  "field data key =
     (case data of
        PDict kvs \<Rightarrow> (case map_of kvs key of Some v \<Rightarrow> v | None \<Rightarrow> PNone)
      | _ \<Rightarrow> PNone)"

definition is_dict :: "pyval \<Rightarrow> bool" where
  "is_dict v = (case v of PDict kvs \<Rightarrow> True | _ \<Rightarrow> False)"

text \<open>
  The body of the second loop, for one checkpoint: the variables are loaded from its data
  according to its step. The first \<^verbatim>\<open>data.get\<close> of a branch raises when the data is no
  dictionary; a step that no branch names loads nothing.
\<close>

definition load_from_checkpoint :: "pyval \<Rightarrow> unit action" where
  "load_from_checkpoint checkpoint =
     py_bind (py_lift (dict_get checkpoint ''step'' PNone)) (\<lambda>step.
     py_bind (py_lift (dict_get checkpoint ''data'' (PDict []))) (\<lambda>data.
       if step = PStr ''text_analysis'' then
         (if is_dict data
          then py_modify (\<lambda>s. s\<lparr>analysis_results := field data ''analysis_results''\<rparr>)
          else py_raise AttributeError)
       else if step = PStr ''visual_analysis'' then
         (if is_dict data
          then py_modify (\<lambda>s. s\<lparr>visual_results := field data ''visual_results'',
                                 analysis_results := field data ''analysis_results''\<rparr>)
          else py_raise AttributeError)
       else if step = PStr ''synthesized'' then
         (if is_dict data
          then py_modify (\<lambda>s. s\<lparr>synthesized := field data ''synthesized'',
                                 analysis_results := field data ''analysis_results'',
                                 visual_results := field data ''visual_results''\<rparr>)
          else py_raise AttributeError)
       else if step = PStr ''schema'' then
         (if is_dict data
          then py_modify (\<lambda>s. s\<lparr>json_schema := field data ''schema'',
                                 synthesized := field data ''synthesized'',
                                 analysis_results := field data ''analysis_results'',
                                 visual_results := field data ''visual_results''\<rparr>)
          else py_raise AttributeError)
       else if step = PStr ''code_generated'' then
         (if is_dict data
          then py_modify (\<lambda>s. s\<lparr>extraction_code := field data ''code'',
                                 json_schema := field data ''schema'',
                                 synthesized := field data ''synthesized'',
                                 analysis_results := field data ''analysis_results'',
                                 visual_results := field data ''visual_results''\<rparr>)
          else py_raise AttributeError)
       else if step = PStr ''code_validated'' \<or> step = PStr ''code'' then
         (if is_dict data
          then py_modify (\<lambda>s. s\<lparr>extraction_code := field data ''code'',
                                 validation_result := field data ''validation'',
                                 json_schema := field data ''schema'',
                                 synthesized := field data ''synthesized'',
                                 analysis_results := field data ''analysis_results'',
                                 visual_results := field data ''visual_results''\<rparr>)
          else py_raise AttributeError)
       else py_return ()))"

fun resume_load :: "(int \<times> string \<times> pyval) list \<Rightarrow> unit action" where
  "resume_load [] = py_return ()"
| "resume_load (flow_info # rest) =
     py_seq (load_from_checkpoint (snd (snd flow_info))) (resume_load rest)"

text \<open>The resume scan: collect, sort by flow id (the sort is stable), load in that order.\<close>

definition resume_scan :: "env \<Rightarrow> unit action" where
  "resume_scan E s =
     (let found = resume_collect (json_loads E) (root s) ([], [])
      in py_seq (py_modify (\<lambda>s. s\<lparr>completed_steps := snd found\<rparr>))
                (resume_load (sort_key fst (fst found))) s)"

text \<open>\<^verbatim>\<open>completed_steps.get(key, default)\<close>\<close>

definition completed_get :: "(string \<times> int) list \<Rightarrow> string \<Rightarrow> int \<Rightarrow> int" where
  "completed_get completed key dflt = (case map_of completed key of Some n \<Rightarrow> n | None \<Rightarrow> dflt)"

text \<open>\<^verbatim>\<open>visual_results if use_visual else []\<close>\<close>

definition visual_or_empty :: "bool \<Rightarrow> state \<Rightarrow> pyval" where
  "visual_or_empty use_visual s = (if use_visual then visual_results s else PList [])"

text \<open>
  The pattern of the cached branches: \<^verbatim>\<open>checkpoint = load_checkpoint()\<close>, then
  \<^verbatim>\<open>if checkpoint and checkpoint.get('step') == name:\<close> followed by the body.
\<close>

definition when_checkpoint_step :: "env \<Rightarrow> int \<Rightarrow> string \<Rightarrow> (pyval \<Rightarrow> unit action) \<Rightarrow> unit action" where
  "when_checkpoint_step E fid name body =
     py_bind (cm_load_checkpoint E fid) (\<lambda>checkpoint.
       if truthy checkpoint then
         py_bind (py_lift (dict_get checkpoint ''step'' PNone)) (\<lambda>step.
           if step = PStr name then body checkpoint else py_return ())
       else py_return ())"

text \<open>\<^verbatim>\<open>x = checkpoint.get('data', {}).get(key, x)\<close> for a variable \<open>x\<close>.\<close>

definition reload :: "pyval \<Rightarrow> string \<Rightarrow> (state \<Rightarrow> pyval) \<Rightarrow> (pyval \<Rightarrow> state \<Rightarrow> state) \<Rightarrow> unit action" where
  "reload checkpoint key rd wr s =
     (case data_get checkpoint key (rd s) of
        Inl e \<Rightarrow> (Inl e, s)
      | Inr v \<Rightarrow> (Inr (), wr v s))"

subsection \<open>Step 1: text analysis\<close>

definition step1_run :: "env \<Rightarrow> html_file list \<Rightarrow> int \<Rightarrow> unit action" where
  "step1_run E html_files fid =
     py_seq (py_modify (\<lambda>s. s\<lparr>calls := calls s @ map (\<lambda>f. Analyze (content f) (file_identifier f)) html_files,
                              analysis_results :=
                                PList (map (\<lambda>f. analyze_html_structure E (content f) (file_identifier f)) html_files)\<rparr>))
    (py_seq (\<lambda>s. cm_save_step_result E fid ''step1_text_analysis'' (analysis_results s) None s)
            (\<lambda>s. cm_save_checkpoint fid ''text_analysis''
                    (PDict [(''analysis_results'', analysis_results s),
                            (''file_identifiers'', ids_list (map file_identifier html_files))]) s))"

definition step1_cached :: "env \<Rightarrow> int \<Rightarrow> unit action" where
  "step1_cached E fid =
     py_bind (cm_load_step_result E fid ''step1_text_analysis'') (\<lambda>r.
     py_seq (py_modify (\<lambda>s. s\<lparr>analysis_results := r\<rparr>))
            (when_checkpoint_step E fid ''text_analysis'' (\<lambda>checkpoint.
               reload checkpoint ''analysis_results'' analysis_results
                 (\<lambda>v s. s\<lparr>analysis_results := v\<rparr>))))"

definition step1 :: "env \<Rightarrow> html_file list \<Rightarrow> unit action" where
  "step1 E html_files s =
     (if analysis_results s \<noteq> PNone then
        (let fid = completed_get (completed_steps s) ''step1'' 1
         in py_seq (py_modify (\<lambda>s. s\<lparr>step1_flow_id := fid\<rparr>)) (flow_output_dir fid) s)
      else
        py_bind next_flow_id (\<lambda>fid.
        py_seq (py_modify (\<lambda>s. s\<lparr>step1_flow_id := fid\<rparr>))
       (py_seq (flow_output_dir fid)
               (\<lambda>s. if step_result_exists (slot_of s fid) ''step1_text_analysis'' None
                    then step1_cached E fid s
                    else step1_run E html_files fid s))) s)"

subsection \<open>Step 2: visual analysis, optional\<close>

definition step2_run :: "env \<Rightarrow> html_file list \<Rightarrow> int \<Rightarrow> unit action" where
  "step2_run E html_files fid =
     py_seq (py_modify (\<lambda>s. s\<lparr>calls := calls s @ map (\<lambda>f. AnalyzeVisually (content f) (file_identifier f)) html_files,
                              visual_results :=
                                PList (map (\<lambda>f. analyze_html_visually E (content f) (file_identifier f)) html_files)\<rparr>))
    (py_seq (\<lambda>s. cm_save_step_result E fid ''step2_visual_analysis'' (visual_results s) None s)
            (\<lambda>s. cm_save_checkpoint fid ''visual_analysis''
                    (PDict [(''analysis_results'', analysis_results s),
                            (''visual_results'', visual_results s),
                            (''file_identifiers'', ids_list (map file_identifier html_files))]) s))"

definition step2_cached :: "env \<Rightarrow> int \<Rightarrow> unit action" where
  "step2_cached E fid =
     py_bind (cm_load_step_result E fid ''step2_visual_analysis'') (\<lambda>r.
     py_seq (py_modify (\<lambda>s. s\<lparr>visual_results := r\<rparr>))
            (when_checkpoint_step E fid ''visual_analysis'' (\<lambda>checkpoint.
               py_seq (reload checkpoint ''visual_results'' visual_results
                         (\<lambda>v s. s\<lparr>visual_results := v\<rparr>))
                      (reload checkpoint ''analysis_results'' analysis_results
                         (\<lambda>v s. s\<lparr>analysis_results := v\<rparr>)))))"

definition step2 :: "env \<Rightarrow> html_file list \<Rightarrow> bool \<Rightarrow> unit action" where
  "step2 E html_files use_visual s =
     (if use_visual then
        (if visual_results s \<noteq> PNone then
           (let fid = completed_get (completed_steps s) ''step2'' 2
            in py_seq (py_modify (\<lambda>s. s\<lparr>step2_flow_id := fid\<rparr>)) (flow_output_dir fid) s)
         else
           py_bind next_flow_id (\<lambda>fid.
           py_seq (py_modify (\<lambda>s. s\<lparr>step2_flow_id := fid\<rparr>))
          (py_seq (flow_output_dir fid)
                  (\<lambda>s. if step_result_exists (slot_of s fid) ''step2_visual_analysis'' None
                       then step2_cached E fid s
                       else step2_run E html_files fid s))) s)
      else (Inr (), s\<lparr>visual_results := PList []\<rparr>))"

subsection \<open>Step 3: synthesis\<close>

definition step3_run :: "env \<Rightarrow> html_file list \<Rightarrow> bool \<Rightarrow> int \<Rightarrow> unit action" where
  "step3_run E html_files use_visual fid s =
     (let ids = map file_identifier html_files;
          combined_results = PDict [(''text_analysis'', analysis_results s),
                                    (''visual_analysis'', visual_or_empty use_visual s)]
      in py_seq (log_call (CoordinateAnalysis ids combined_results))
        (py_bind (py_lift (coordinate_analysis E ids combined_results)) (\<lambda>r.
         py_seq (py_modify (\<lambda>s. s\<lparr>synthesized := r\<rparr>))
        (py_seq (cm_save_step_result E fid ''step3_synthesized'' r None)
                (\<lambda>s. cm_save_checkpoint fid ''synthesized''
                        (PDict [(''analysis_results'', analysis_results s),
                                (''visual_results'', visual_or_empty use_visual s),
                                (''synthesized'', synthesized s),
                                (''file_identifiers'', ids_list ids)]) s)))) s)"

definition step3_cached :: "env \<Rightarrow> int \<Rightarrow> unit action" where
  "step3_cached E fid =
     py_bind (cm_load_step_result E fid ''step3_synthesized'') (\<lambda>r.
     py_seq (py_modify (\<lambda>s. s\<lparr>synthesized := r\<rparr>))
            (when_checkpoint_step E fid ''synthesized'' (\<lambda>checkpoint.
               py_seq (reload checkpoint ''synthesized'' synthesized
                         (\<lambda>v s. s\<lparr>synthesized := v\<rparr>))
              (py_seq (reload checkpoint ''analysis_results'' analysis_results
                         (\<lambda>v s. s\<lparr>analysis_results := v\<rparr>))
                      (reload checkpoint ''visual_results'' visual_results
                         (\<lambda>v s. s\<lparr>visual_results := v\<rparr>))))))"

definition step3 :: "env \<Rightarrow> html_file list \<Rightarrow> bool \<Rightarrow> unit action" where
  "step3 E html_files use_visual s =
     (if synthesized s \<noteq> PNone then
        (let fid = completed_get (completed_steps s) ''step3'' 3
         in py_seq (py_modify (\<lambda>s. s\<lparr>step3_flow_id := fid\<rparr>)) (flow_output_dir fid) s)
      else
        py_bind next_flow_id (\<lambda>fid.
        py_seq (py_modify (\<lambda>s. s\<lparr>step3_flow_id := fid\<rparr>))
       (py_seq (flow_output_dir fid)
               (\<lambda>s. if step_result_exists (slot_of s fid) ''step3_synthesized'' None
                    then step3_cached E fid s
                    else step3_run E html_files use_visual fid s))) s)"

subsection \<open>Step 4: the schema\<close>

definition step4_run :: "env \<Rightarrow> html_file list \<Rightarrow> bool \<Rightarrow> int \<Rightarrow> unit action" where
  "step4_run E html_files use_visual fid s =
     (let r = generate_final_schema E (synthesized s)
      in py_seq (log_call (GenerateFinalSchema (synthesized s)))
        (py_seq (py_modify (\<lambda>s. s\<lparr>json_schema := r\<rparr>))
        (py_seq (write_json_at fid ''extraction_schema.json'' r)
        (py_seq (cm_save_step_result E fid ''step4_schema'' r None)
                (\<lambda>s. cm_save_checkpoint fid ''schema''
                        (PDict [(''analysis_results'', analysis_results s),
                                (''visual_results'', visual_or_empty use_visual s),
                                (''synthesized'', synthesized s),
                                (''schema'', json_schema s),
                                (''file_identifiers'', ids_list (map file_identifier html_files))]) s)))) s)"

definition step4_cached :: "env \<Rightarrow> int \<Rightarrow> unit action" where
  "step4_cached E fid =
     py_bind (cm_load_step_result E fid ''step4_schema'') (\<lambda>r.
     py_seq (py_modify (\<lambda>s. s\<lparr>json_schema := r\<rparr>))
    (py_seq (\<lambda>s. if r = PNone \<and> path_exists (slot_of s fid) ''extraction_schema.json''
                  then (case read_json (json_loads E) (slot_of s fid) ''extraction_schema.json'' of
                          Inl e \<Rightarrow> (Inl e, s)
                        | Inr v \<Rightarrow> (Inr (), s\<lparr>json_schema := v\<rparr>))
                  else (Inr (), s))
            (when_checkpoint_step E fid ''schema'' (\<lambda>checkpoint.
               py_seq (reload checkpoint ''schema'' json_schema
                         (\<lambda>v s. s\<lparr>json_schema := v\<rparr>))
              (py_seq (reload checkpoint ''synthesized'' synthesized
                         (\<lambda>v s. s\<lparr>synthesized := v\<rparr>))
              (py_seq (reload checkpoint ''analysis_results'' analysis_results
                         (\<lambda>v s. s\<lparr>analysis_results := v\<rparr>))
                      (reload checkpoint ''visual_results'' visual_results
                         (\<lambda>v s. s\<lparr>visual_results := v\<rparr>))))))))"

definition step4 :: "env \<Rightarrow> html_file list \<Rightarrow> bool \<Rightarrow> unit action" where
  "step4 E html_files use_visual s =
     (if json_schema s \<noteq> PNone then
        (let fid = completed_get (completed_steps s) ''step4'' 4
         in py_seq (py_modify (\<lambda>s. s\<lparr>step4_flow_id := fid\<rparr>)) (flow_output_dir fid) s)
      else
        py_bind next_flow_id (\<lambda>fid.
        py_seq (py_modify (\<lambda>s. s\<lparr>step4_flow_id := fid\<rparr>))
       (py_seq (flow_output_dir fid)
               (\<lambda>s. if step_result_exists (slot_of s fid) ''step4_schema'' None
                       \<or> path_exists (slot_of s fid) ''extraction_schema.json''
                    then step4_cached E fid s
                    else step4_run E html_files use_visual fid s))) s)"

subsection \<open>agents/code_generator.py: \<^verbatim>\<open>generate_extraction_code\<close>\<close>

definition max_retries :: nat where
  "max_retries = 3"

definition newline :: string where
  "newline = [CHR 0x0A]"

text \<open>The first two lines of the template \<^verbatim>\<open>_generate_fallback_code\<close> returns.\<close>

definition fallback_header :: string where
  "fallback_header =
     ''# HTML Content Extraction Code'' @ newline @
     ''# Generated from schema (API generation failed, using fallback template)'' @ newline"

text \<open>\<^verbatim>\<open>_generate_fallback_code\<close>: reads \<^verbatim>\<open>json_schema.get('sections', [])\<close>.\<close>

definition generate_fallback_code :: "env \<Rightarrow> pyval \<Rightarrow> exn + pyval" where
  "generate_fallback_code E schema =
     (case dict_get schema ''sections'' (PList []) of
        Inl e \<Rightarrow> Inl e
      | Inr sections \<Rightarrow> Inr (PStr (fallback_header @ fallback_rest E sections)))"

text \<open>
  The retry loop \<^verbatim>\<open>for attempt in range(max_retries)\<close>, with \<open>n\<close> attempts left: an
  attempt that returns ends the call; one that raises is followed by the next attempt, and
  after the last attempt by the fallback template, which is returned as the result.
\<close>

primrec retry_attempts :: "env \<Rightarrow> string \<Rightarrow> pyval \<Rightarrow> nat \<Rightarrow> exn + pyval" where
  "retry_attempts E prompt schema 0 = Inr PNone"
| "retry_attempts E prompt schema (Suc n) =
     (let attempt = max_retries - Suc n
      in case api_attempt E attempt prompt of
           Inr code \<Rightarrow> Inr (PStr code)
         | Inl e \<Rightarrow>
             if attempt < max_retries - 1 then retry_attempts E prompt schema n
             else generate_fallback_code E schema)"

definition generate_extraction_code :: "env \<Rightarrow> pyval \<Rightarrow> exn + pyval" where
  "generate_extraction_code E schema =
     (case build_prompt E schema of
        Inl e \<Rightarrow> Inl e
      | Inr (prompt, schema') \<Rightarrow> retry_attempts E prompt schema' max_retries)"

subsection \<open>Step 5: code generation\<close>

text \<open>
  The scan for a flow directory whose checkpoint is at \<^verbatim>\<open>schema\<close> with
  \<^verbatim>\<open>code_generation_failed\<close> set: the entries are visited in the order of the enumeration
  and the loop breaks at the first match.
\<close>

fun find_incomplete_step5 :: "(string \<Rightarrow> pyval option) \<Rightarrow> root_dir \<Rightarrow> int option" where
  "find_incomplete_step5 loads [] = None"
| "find_incomplete_step5 loads (item # items) =
     (if is_flow_dir item then
        (case py_int (drop 4 (fst item)) of
           None \<Rightarrow> find_incomplete_step5 loads items
         | Some flow_num \<Rightarrow>
             (case load_checkpoint loads (dir_of (snd item)) of
                Inl e \<Rightarrow> find_incomplete_step5 loads items
              | Inr checkpoint \<Rightarrow>
                  if truthy checkpoint then
                    (case dict_get checkpoint ''step'' PNone of
                       Inl e \<Rightarrow> find_incomplete_step5 loads items
                     | Inr step \<Rightarrow>
                         if step = PStr ''schema'' then
                           (case data_get checkpoint ''code_generation_failed'' PNone of
                              Inl e \<Rightarrow> find_incomplete_step5 loads items
                            | Inr flag \<Rightarrow>
                                if truthy flag then Some flow_num
                                else find_incomplete_step5 loads items)
                         else find_incomplete_step5 loads items)
                  else find_incomplete_step5 loads items))
      else find_incomplete_step5 loads items)"

text \<open>\<^verbatim>\<open>code_path.unlink()\<close> inside its own \<^verbatim>\<open>try\<close>: a directory is not removed.\<close>

definition unlink_file :: "slot_dir \<Rightarrow> string \<Rightarrow> slot_dir" where
  "unlink_file d name = (case map_of d name of Some (File c) \<Rightarrow> AList.delete name d | _ \<Rightarrow> d)"

definition read_text_at :: "env \<Rightarrow> int \<Rightarrow> string \<Rightarrow> pyval action" where
  "read_text_at E fid name s =
     (case read_text (json_dumps E) (slot_of s fid) name of
        Inl e \<Rightarrow> (Inl e, s)
      | Inr t \<Rightarrow> (Inr (PStr t), s))"

text \<open>The checkpoint of the chosen directory is read: \<^verbatim>\<open>code_completed\<close> is set, and the
  variables are loaded, only when its step is \<^verbatim>\<open>code_generated\<close>.\<close>

definition step5_completed :: "env \<Rightarrow> int \<Rightarrow> bool action" where
  "step5_completed E fid =
     py_bind (cm_load_checkpoint E fid) (\<lambda>checkpoint.
       if truthy checkpoint then
         py_bind (py_lift (dict_get checkpoint ''step'' PNone)) (\<lambda>step.
           if step = PStr ''code_generated'' then
             py_seq (reload checkpoint ''code'' (\<lambda>s. PNone) (\<lambda>v s. s\<lparr>extraction_code := v\<rparr>))
            (py_seq (reload checkpoint ''schema'' json_schema (\<lambda>v s. s\<lparr>json_schema := v\<rparr>))
            (py_seq (reload checkpoint ''synthesized'' synthesized (\<lambda>v s. s\<lparr>synthesized := v\<rparr>))
            (py_seq (reload checkpoint ''analysis_results'' analysis_results
                       (\<lambda>v s. s\<lparr>analysis_results := v\<rparr>))
            (py_seq (reload checkpoint ''visual_results'' visual_results
                       (\<lambda>v s. s\<lparr>visual_results := v\<rparr>))
                    (py_return True)))))
           else py_return False)
       else py_return False)"

text \<open>\<^verbatim>\<open>if code_path.exists() and code_completed:\<close> the cached code is used unless it is the
  fallback template; the result is the new value of \<^verbatim>\<open>code_completed\<close>.\<close>

definition step5_cached :: "env \<Rightarrow> int \<Rightarrow> bool \<Rightarrow> bool action" where
  "step5_cached E fid code_completed s =
     (if path_exists (slot_of s fid) ''extraction_code.py'' \<and> code_completed then
        py_seq (\<lambda>s. if extraction_code s = PNone
                     then py_bind (read_text_at E fid ''extraction_code.py'')
                            (\<lambda>t. py_modify (\<lambda>s. s\<lparr>extraction_code := t\<rparr>)) s
                     else (Inr (), s))
               (\<lambda>s. case py_contains ''API generation failed'' (extraction_code s) of
                      Inl e \<Rightarrow> (Inl e, s)
                    | Inr True \<Rightarrow> (Inr False, s\<lparr>extraction_code := PNone\<rparr>)
                    | Inr False \<Rightarrow>
                        (case py_contains ''fallback template'' (extraction_code s) of
                           Inl e \<Rightarrow> (Inl e, s)
                         | Inr True \<Rightarrow> (Inr False, s\<lparr>extraction_code := PNone\<rparr>)
                         | Inr False \<Rightarrow> (Inr True, s))) s
      else (Inr code_completed, s))"

text \<open>The \<^verbatim>\<open>try\<close> block of step 5.\<close>

definition step5_generate :: "env \<Rightarrow> html_file list \<Rightarrow> bool \<Rightarrow> int \<Rightarrow> unit action" where
  "step5_generate E html_files use_visual fid =
     py_seq (\<lambda>s. log_call (GenerateExtractionCode (json_schema s)) s)
    (py_bind (\<lambda>s. py_lift (generate_extraction_code E (json_schema s)) s) (\<lambda>code.
     py_seq (py_modify (\<lambda>s. s\<lparr>extraction_code := code\<rparr>))
    (py_seq (write_text_at fid ''extraction_code.py'' code)
    (py_seq (cm_save_step_result E fid ''step5_code'' code (Some ''extraction_code.py''))
            (\<lambda>s. cm_save_checkpoint fid ''code_generated''
                    (PDict [(''analysis_results'', analysis_results s),
                            (''visual_results'', visual_or_empty use_visual s),
                            (''synthesized'', synthesized s),
                            (''schema'', json_schema s),
                            (''code'', extraction_code s),
                            (''file_identifiers'', ids_list (map file_identifier html_files))]) s)))))"

text \<open>The \<^verbatim>\<open>except\<close> block of step 5: the code file is removed, the checkpoint of the
  directory is written at step \<^verbatim>\<open>schema\<close> with the error and the failure flag, and the
  exception is raised again.\<close>

definition step5_failed :: "html_file list \<Rightarrow> bool \<Rightarrow> int \<Rightarrow> exn \<Rightarrow> unit action" where
  "step5_failed html_files use_visual fid e =
     py_seq (py_modify (\<lambda>s. set_slot fid (unlink_file (slot_of s fid) ''extraction_code.py'') s))
    (py_seq (\<lambda>s. cm_save_checkpoint fid ''schema''
                    (PDict [(''analysis_results'', analysis_results s),
                            (''visual_results'', visual_or_empty use_visual s),
                            (''synthesized'', synthesized s),
                            (''schema'', json_schema s),
                            (''file_identifiers'', ids_list (map file_identifier html_files)),
                            (''error'', PStr (''Code generation failed: '' @ exn_str e)),
                            (''code_generation_failed'', PBool True)]) s)
            (py_raise e))"

definition step5 :: "env \<Rightarrow> html_file list \<Rightarrow> bool \<Rightarrow> unit action" where
  "step5 E html_files use_visual s =
     (if extraction_code s \<noteq> PNone then
        (let fid = completed_get (completed_steps s) ''step5'' 5
         in py_seq (py_modify (\<lambda>s. s\<lparr>step5_flow_id := fid\<rparr>))
           (py_seq (flow_output_dir fid)
                   (\<lambda>s. if path_exists (slot_of s fid) ''extraction_code.py''
                        then py_bind (read_text_at E fid ''extraction_code.py'')
                               (\<lambda>t. py_modify (\<lambda>s. s\<lparr>extraction_code := t\<rparr>)) s
                        else (Inr (), s))) s)
      else
        py_bind (\<lambda>s. case find_incomplete_step5 (json_loads E) (root s) of
                       Some existing \<Rightarrow> (Inr existing, s)
                     | None \<Rightarrow> next_flow_id s) (\<lambda>fid.
        py_seq (py_modify (\<lambda>s. s\<lparr>step5_flow_id := fid\<rparr>))
       (py_seq (flow_output_dir fid)
       (py_bind (step5_completed E fid) (\<lambda>completed.
        py_bind (step5_cached E fid completed) (\<lambda>code_completed.
          if \<not> code_completed
          then py_try (step5_generate E html_files use_visual fid)
                      (step5_failed html_files use_visual fid)
          else py_return ()))))) s)"

subsection \<open>Step 6: validation of the generated code\<close>

text \<open>
  The scan for a flow directory whose checkpoint is at \<^verbatim>\<open>code_validated\<close> (or \<^verbatim>\<open>code\<close>), in
  the order of the enumeration. At a match the flow id is assigned first, then the code
  and the validation are read from the data and the loop breaks; when reading the data
  raises, the loop goes on with the flow id already assigned. The result is
  (\<^verbatim>\<open>step6_flow_id\<close>, \<^verbatim>\<open>validated_code\<close>, \<^verbatim>\<open>validation_result\<close>).
\<close>

fun find_validated ::
    "(string \<Rightarrow> pyval option) \<Rightarrow> root_dir \<Rightarrow> int option \<times> pyval \<times> pyval \<Rightarrow> int option \<times> pyval \<times> pyval" where
  "find_validated loads [] acc = acc"
| "find_validated loads (item # items) acc =
     (if is_flow_dir item then
        (case py_int (drop 4 (fst item)) of
           None \<Rightarrow> find_validated loads items acc
         | Some flow_num \<Rightarrow>
             (case load_checkpoint loads (dir_of (snd item)) of
                Inl e \<Rightarrow> find_validated loads items acc
              | Inr checkpoint \<Rightarrow>
                  if truthy checkpoint then
                    (case dict_get checkpoint ''step'' PNone of
                       Inl e \<Rightarrow> find_validated loads items acc
                     | Inr step \<Rightarrow>
                         if step = PStr ''code_validated'' \<or> step = PStr ''code'' then
                           (case data_get checkpoint ''code'' PNone of
                              Inl e \<Rightarrow> find_validated loads items (Some flow_num, snd acc)
                            | Inr code \<Rightarrow>
                                (case data_get checkpoint ''validation'' PNone of
                                   Inl e \<Rightarrow> find_validated loads items (Some flow_num, code, snd (snd acc))
                                 | Inr validation \<Rightarrow> (Some flow_num, code, validation)))
                         else find_validated loads items acc)
                  else find_validated loads items acc))
      else find_validated loads items acc)"

text \<open>
  Writing what an execution of generated code leaves: the results directory is created
  (which fails, and is caught, when a file has its name), the result files are written
  into it, and the summary beside it.
\<close>

definition apply_execution :: "string \<Rightarrow> string \<Rightarrow> execution \<Rightarrow> slot_dir \<Rightarrow> slot_dir" where
  "apply_execution folder summary_name ex d =
     (case ex of
        NoExecution \<Rightarrow> d
      | Executed files summary \<Rightarrow>
          (case map_of d folder of
             Some (File c) \<Rightarrow> d
           | other \<Rightarrow>
               (let old = (case other of Some (Folder fs) \<Rightarrow> fs | _ \<Rightarrow> []);
                    d1 = AList.update folder (Folder (fold (\<lambda>f. AList.update (fst f) (snd f)) files old)) d
                in case summary of
                     None \<Rightarrow> d1
                   | Some v \<Rightarrow> (case write_file d1 summary_name (Doc v) of Inl e \<Rightarrow> d1 | Inr d2 \<Rightarrow> d2))))"

text \<open>Step 6.5, inside its own \<^verbatim>\<open>try\<close>: the validated code of the step 6 directory is run
  on the spread directory; nothing it raises leaves the block.\<close>

definition execute_extraction_code :: "env \<Rightarrow> int \<Rightarrow> unit action" where
  "execute_extraction_code E fid s =
     (let d = slot_of s fid;
          ex = run_extraction E (map_of d ''extraction_code.py'') (json_schema s)
      in (Inr (), (set_slot fid (apply_execution ''extraction_results'' ''extraction_results_summary.json'' ex d) s)
                    \<lparr>calls := calls s @ [ExecuteExtraction fid]\<rparr>))"

text \<open>\<^verbatim>\<open>CodeValidatorAgent.fix_code\<close>: the regular expressions need a string; the fixed code
  of the validation result, when there is one, is the result.\<close>

definition fix_code :: "env \<Rightarrow> pyval \<Rightarrow> validation \<Rightarrow> exn + pyval" where
  "fix_code E code v =
     (case code of
        PStr c \<Rightarrow>
          Inr (PStr (case v_fixed_code v of
                       Some fixed \<Rightarrow> if fixed \<noteq> [] then fixed else fix_booleans E c
                     | None \<Rightarrow> fix_booleans E c))
      | _ \<Rightarrow> Inl TypeError)"

text \<open>\<^verbatim>\<open>s.split('\n')\<close>, \<^verbatim>\<open>'\n'.join(lines)\<close> and \<^verbatim>\<open>s.strip()\<close> on ASCII text.\<close>

fun split_lines :: "string \<Rightarrow> string list" where
  "split_lines [] = [[]]"
| "split_lines (c # cs) =
     (if c = CHR 0x0A then [] # split_lines cs
      else (case split_lines cs of l # ls \<Rightarrow> (c # l) # ls | [] \<Rightarrow> [[c]]))"

fun join_lines :: "string list \<Rightarrow> string" where
  "join_lines [] = []"
| "join_lines [l] = l"
| "join_lines (l # m # ls) = l @ newline @ join_lines (m # ls)"

definition is_str_space :: "char \<Rightarrow> bool" where
  "is_str_space c = ((of_char c :: nat) \<in> {9, 10, 11, 12, 13, 28, 29, 30, 31, 32})"

definition str_strip :: "string \<Rightarrow> string" where
  "str_strip s = rev (dropWhile is_str_space (rev (dropWhile is_str_space s)))"

definition validation_marker :: string where
  "validation_marker = ''# This code has been validated and verified'' @ newline"

text \<open>The marker is inserted as a line of its own after the leading comment lines, or put
  in front of code that does not start with a comment.\<close>

definition add_validation_marker :: "pyval \<Rightarrow> exn + pyval" where
  "add_validation_marker code =
     (case code of
        PStr c \<Rightarrow>
          if prefix ''#'' c then
            (let lines = split_lines c;
                 insert_pos = length (takeWhile (\<lambda>line. prefix ''#'' (str_strip line)) lines)
             in Inr (PStr (join_lines (take insert_pos lines @ [validation_marker] @ drop insert_pos lines))))
          else Inr (PStr (validation_marker @ c))
      | _ \<Rightarrow> Inl AttributeError)"

definition has_issues :: "validation \<Rightarrow> bool" where
  "has_issues v = (v_syntax_errors v \<noteq> [] \<or> v_robustness_issues v \<noteq> [] \<or> v_interface_issues v \<noteq> [])"

text \<open>Validation, and the repair when the validation found issues and offers fixed code:
  the result is the validation result that stands at the end.\<close>

definition step6_validate :: "env \<Rightarrow> validation action" where
  "step6_validate E =
     py_seq (\<lambda>s. log_call (ValidateCode (extraction_code s) (json_schema s)) s)
    (py_bind (\<lambda>s. py_lift (validate_code E (extraction_code s) (json_schema s)) s) (\<lambda>v.
     py_seq (py_modify (\<lambda>s. s\<lparr>validation_result := validation_dict v\<rparr>))
       (if has_issues v \<and> has_fixed_code v then
          py_seq (\<lambda>s. log_call (FixCode (extraction_code s)) s)
         (py_bind (\<lambda>s. py_lift (fix_code E (extraction_code s) v) s) (\<lambda>fixed.
          py_seq (py_modify (\<lambda>s. s\<lparr>extraction_code := fixed\<rparr>))
         (py_seq (\<lambda>s. log_call (ValidateCode (extraction_code s) (json_schema s)) s)
         (py_bind (\<lambda>s. py_lift (validate_code E (extraction_code s) (json_schema s)) s) (\<lambda>rv.
            if v_syntax_errors rv = [] \<and> v_robustness_issues rv = [] \<and> v_interface_issues rv = []
            then py_return v
            else py_seq (py_modify (\<lambda>s. s\<lparr>validation_result := validation_dict rv\<rparr>))
                        (py_return rv))))))
        else py_return v)))"

text \<open>The \<^verbatim>\<open>try\<close> block of step 6.\<close>

definition step6_run :: "env \<Rightarrow> html_file list \<Rightarrow> bool \<Rightarrow> int \<Rightarrow> unit action" where
  "step6_run E html_files use_visual fid =
     py_bind (step6_validate E) (\<lambda>v.
     py_seq (if \<not> has_fixed_code v
             then py_bind (\<lambda>s. py_lift (add_validation_marker (extraction_code s)) s)
                    (\<lambda>marked. py_modify (\<lambda>s. s\<lparr>extraction_code := marked\<rparr>))
             else py_return ())
    (py_seq (\<lambda>s. write_json_at fid ''code_validation_result.json'' (validation_result s) s)
    (py_seq (\<lambda>s. write_text_at fid ''extraction_code.py'' (extraction_code s) s)
    (py_seq (\<lambda>s. cm_save_checkpoint fid ''code_validated''
                    (PDict [(''analysis_results'', analysis_results s),
                            (''visual_results'', visual_or_empty use_visual s),
                            (''synthesized'', synthesized s),
                            (''schema'', json_schema s),
                            (''code'', extraction_code s),
                            (''validation'', validation_result s),
                            (''file_identifiers'', ids_list (map file_identifier html_files))]) s)
            (execute_extraction_code E fid)))))"

text \<open>The \<^verbatim>\<open>except\<close> block of step 6: the checkpoint of the directory is written at step
  \<^verbatim>\<open>code_generated\<close> with the error and the failure flag, and the exception is raised
  again.\<close>

definition step6_failed :: "html_file list \<Rightarrow> bool \<Rightarrow> int \<Rightarrow> exn \<Rightarrow> unit action" where
  "step6_failed html_files use_visual fid e =
     py_seq (\<lambda>s. cm_save_checkpoint fid ''code_generated''
                    (PDict [(''analysis_results'', analysis_results s),
                            (''visual_results'', visual_or_empty use_visual s),
                            (''synthesized'', synthesized s),
                            (''schema'', json_schema s),
                            (''code'', extraction_code s),
                            (''file_identifiers'', ids_list (map file_identifier html_files)),
                            (''error'', PStr (''Code validation failed: '' @ exn_str e)),
                            (''validation_failed'', PBool True)]) s)
            (py_raise e)"

definition step6 :: "env \<Rightarrow> html_file list \<Rightarrow> bool \<Rightarrow> unit action" where
  "step6 E html_files use_visual s =
     (case find_validated (json_loads E) (root s) (None, PNone, PNone) of
        (found, validated_code, validation) \<Rightarrow>
          if validated_code \<noteq> PNone \<and> validation \<noteq> PNone then
            (case found of
               None \<Rightarrow> (Inl TypeError, s)
             | Some fid \<Rightarrow>
                 py_seq (py_modify (\<lambda>s. s\<lparr>step6_flow_id := fid, validation_result := validation,
                                          extraction_code := validated_code\<rparr>))
                (py_seq (flow_output_dir fid)
                        (execute_extraction_code E fid)) s)
          else
            py_bind next_flow_id (\<lambda>fid.
            py_seq (py_modify (\<lambda>s. s\<lparr>step6_flow_id := fid, validation_result := validation\<rparr>))
           (py_seq (flow_output_dir fid)
                   (py_try (step6_run E html_files use_visual fid)
                           (step6_failed html_files use_visual fid)))) s)"

subsection \<open>The intermediate results written after step 6\<close>

definition intermediate_results :: "html_file list \<Rightarrow> bool \<Rightarrow> unit action" where
  "intermediate_results html_files use_visual =
     (let ids = ids_list (map file_identifier html_files)
      in py_seq (\<lambda>s. write_json_at (step1_flow_id s) ''intermediate_results.json''
                        (PDict [(''html_files'', ids),
                                (''analysis_results'', analysis_results s),
                                (''step'', PStr ''step1_text_analysis''),
                                (''flow_id'', PInt (step1_flow_id s))]) s)
        (py_seq (\<lambda>s. if use_visual \<and> truthy (visual_results s)
                      then write_json_at (step2_flow_id s) ''intermediate_results.json''
                             (PDict [(''html_files'', ids),
                                     (''analysis_results'', analysis_results s),
                                     (''visual_results'', visual_results s),
                                     (''step'', PStr ''step2_visual_analysis''),
                                     (''flow_id'', PInt (step2_flow_id s))]) s
                      else (Inr (), s))
        (py_seq (\<lambda>s. write_json_at (step3_flow_id s) ''intermediate_results.json''
                        (PDict [(''html_files'', ids),
                                (''analysis_results'', analysis_results s),
                                (''visual_results'', visual_or_empty use_visual s),
                                (''synthesized'', synthesized s),
                                (''step'', PStr ''step3_synthesized''),
                                (''flow_id'', PInt (step3_flow_id s))]) s)
        (py_seq (\<lambda>s. write_json_at (step4_flow_id s) ''intermediate_results.json''
                        (PDict [(''html_files'', ids),
                                (''analysis_results'', analysis_results s),
                                (''visual_results'', visual_or_empty use_visual s),
                                (''synthesized'', synthesized s),
                                (''schema'', json_schema s),
                                (''step'', PStr ''step4_schema''),
                                (''flow_id'', PInt (step4_flow_id s))]) s)
        (py_seq (\<lambda>s. write_json_at (step5_flow_id s) ''intermediate_results.json''
                        (PDict [(''html_files'', ids),
                                (''analysis_results'', analysis_results s),
                                (''visual_results'', visual_or_empty use_visual s),
                                (''synthesized'', synthesized s),
                                (''schema'', json_schema s),
                                (''code'', extraction_code s),
                                (''step'', PStr ''step5_code_generated''),
                                (''flow_id'', PInt (step5_flow_id s))]) s)
                (\<lambda>s. write_json_at (step6_flow_id s) ''intermediate_results.json''
                        (PDict [(''html_files'', ids),
                                (''analysis_results'', analysis_results s),
                                (''visual_results'', visual_or_empty use_visual s),
                                (''synthesized'', synthesized s),
                                (''schema'', json_schema s),
                                (''code'', extraction_code s),
                                (''validation'', validation_result s),
                                (''step'', PStr ''step6_code_validated''),
                                (''flow_directories'',
                                   PDict [(''step1'', PStr (flow_name (step1_flow_id s))),
                                          (''step2'', if use_visual then PStr (flow_name (step2_flow_id s)) else PNone),
                                          (''step3'', PStr (flow_name (step3_flow_id s))),
                                          (''step4'', PStr (flow_name (step4_flow_id s))),
                                          (''step5'', PStr (flow_name (step5_flow_id s))),
                                          (''step6'', PStr (flow_name (step6_flow_id s)))])]) s))))))"

subsection \<open>Step 7: the Markdown converter, optional\<close>

text \<open>The scan for a flow directory whose checkpoint is at \<^verbatim>\<open>markdown_converted\<close>, built as
  the scan of step 6.\<close>

fun find_markdown ::
    "(string \<Rightarrow> pyval option) \<Rightarrow> root_dir \<Rightarrow> int option \<times> pyval \<times> pyval \<Rightarrow> int option \<times> pyval \<times> pyval" where
  "find_markdown loads [] acc = acc"
| "find_markdown loads (item # items) acc =
     (if is_flow_dir item then
        (case py_int (drop 4 (fst item)) of
           None \<Rightarrow> find_markdown loads items acc
         | Some flow_num \<Rightarrow>
             (case load_checkpoint loads (dir_of (snd item)) of
                Inl e \<Rightarrow> find_markdown loads items acc
              | Inr checkpoint \<Rightarrow>
                  if truthy checkpoint then
                    (case dict_get checkpoint ''step'' PNone of
                       Inl e \<Rightarrow> find_markdown loads items acc
                     | Inr step \<Rightarrow>
                         if step = PStr ''markdown_converted'' then
                           (case data_get checkpoint ''markdown_converter_code'' PNone of
                              Inl e \<Rightarrow> find_markdown loads items (Some flow_num, snd acc)
                            | Inr code \<Rightarrow>
                                (case data_get checkpoint ''content_analysis'' PNone of
                                   Inl e \<Rightarrow> find_markdown loads items (Some flow_num, code, snd (snd acc))
                                 | Inr analysis \<Rightarrow> (Some flow_num, code, analysis)))
                         else find_markdown loads items acc)
                  else find_markdown loads items acc))
      else find_markdown loads items acc)"

text \<open>Step 7.5, inside its own \<^verbatim>\<open>try\<close>: the converter of the step 7 directory is run on the
  extraction results of the step 6 directory.\<close>

definition execute_markdown_conversion :: "env \<Rightarrow> int \<Rightarrow> int \<Rightarrow> unit action" where
  "execute_markdown_conversion E fid7 fid6 s =
     (let d = slot_of s fid7;
          ex = run_conversion E (map_of d ''markdown_converter.py'') (map_of (slot_of s fid6) ''extraction_results'')
      in (Inr (), (set_slot fid7 (apply_execution ''markdown_output'' ''markdown_conversion_summary.json'' ex d) s)
                    \<lparr>calls := calls s @ [ExecuteConversion fid7]\<rparr>))"

text \<open>The sample of at most five result files that load.\<close>

definition load_json_results :: "env \<Rightarrow> (string \<times> content) list \<Rightarrow> pyval list" where
  "load_json_results E json_files =
     concat (map (\<lambda>f. case snd f of
                         Doc v \<Rightarrow> [v]
                       | Raw t \<Rightarrow> (case json_loads E t of Some v \<Rightarrow> [v] | None \<Rightarrow> []))
                 (take 5 json_files))"

text \<open>
  The loop that checks the syntax of the generated converter, \<^verbatim>\<open>while retry_count <= 2\<close>:
  code that compiles ends the loop; the first syntax error is repaired in place, the
  second makes the agent generate the code again, the third raises.
\<close>

function syntax_loop :: "env \<Rightarrow> pyval \<Rightarrow> pyval \<Rightarrow> nat \<Rightarrow> unit action" where
  "syntax_loop E analysis sample retry_count s =
     (if retry_count \<le> 2 then
        (case markdown_converter_code s of
           PStr code \<Rightarrow>
             (case try_compile E code of
                Compiled \<Rightarrow> (Inr (), s)
              | CompileError e \<Rightarrow> (Inl e, s)
              | SyntaxError m \<Rightarrow>
                  if retry_count = 0 then
                    syntax_loop E analysis sample 1
                      (s\<lparr>markdown_converter_code := PStr (fix_markdown_converter_syntax E code m)\<rparr>)
                  else if retry_count = 1 then
                    (case generate_markdown_converter_code E analysis sample True of
                       Inl e \<Rightarrow> (Inl e, s\<lparr>calls := calls s @ [GenerateConverter analysis sample True]\<rparr>)
                     | Inr regenerated \<Rightarrow>
                         syntax_loop E analysis sample 2
                           (s\<lparr>calls := calls s @ [GenerateConverter analysis sample True],
                              markdown_converter_code := PStr regenerated\<rparr>))
                  else (Inl (ValueError (''Generated code has unfixable syntax errors after 2 attempts: '' @ m)), s))
         | _ \<Rightarrow> (Inl TypeError, s))
      else (Inr (), s))"
  by pat_completeness auto

termination
  by (relation "measure (\<lambda>(E, analysis, sample, retry_count, s). 3 - retry_count)") auto

declare syntax_loop.simps [simp del]

text \<open>The part of the \<^verbatim>\<open>try\<close> block of step 7 that follows the content analysis.\<close>

definition step7_generate :: "env \<Rightarrow> html_file list \<Rightarrow> int \<Rightarrow> nat \<Rightarrow> pyval \<Rightarrow> unit action" where
  "step7_generate E html_files fid json_files_count sample =
     py_seq (\<lambda>s. log_call (GenerateConverter (content_analysis s) sample False) s)
    (py_bind (\<lambda>s. py_lift (generate_markdown_converter_code E (content_analysis s) sample False) s) (\<lambda>code.
     py_seq (py_modify (\<lambda>s. s\<lparr>markdown_converter_code := PStr code\<rparr>))
    (py_seq (\<lambda>s. syntax_loop E (content_analysis s) sample 0 s)
    (py_seq (\<lambda>s. write_text_at fid ''markdown_converter.py'' (markdown_converter_code s) s)
    (py_seq (\<lambda>s. cm_save_checkpoint fid ''markdown_converted''
                    (PDict [(''content_analysis'', content_analysis s),
                            (''markdown_converter_code'', markdown_converter_code s),
                            (''json_files_count'', PInt (int json_files_count)),
                            (''file_identifiers'', ids_list (map file_identifier html_files))]) s)
            (\<lambda>s. execute_markdown_conversion E fid (step6_flow_id s) s))))))"

text \<open>The \<^verbatim>\<open>try\<close> block of step 7: without extraction results the step is skipped.\<close>

definition step7_run :: "env \<Rightarrow> html_file list \<Rightarrow> int \<Rightarrow> unit action" where
  "step7_run E html_files fid s =
     (case map_of (slot_of s (step6_flow_id s)) ''extraction_results'' of
        None \<Rightarrow> (Inr (), s)
      | Some results \<Rightarrow>
          (let json_files = (case results of Folder fs \<Rightarrow> glob_json E fs | File c \<Rightarrow> [])
           in if json_files = [] then (Inr (), s)
              else (case load_json_results E json_files of
                      [] \<Rightarrow> (Inr (), s)
                    | sample # others \<Rightarrow>
                        (let analysis = analyze_content_fields E (sample # others)
                         in py_seq (log_call (AnalyzeContentFields (sample # others)))
                           (py_seq (py_modify (\<lambda>s. s\<lparr>content_analysis := analysis\<rparr>))
                           (py_bind (py_lift (py_contains ''error'' analysis)) (\<lambda>failed.
                              if failed then
                                py_bind (py_lift (dict_get analysis ''error'' PNone)) (\<lambda>err.
                                  py_raise (ValueError (''Content analysis failed: '' @ py_str E err)))
                              else step7_generate E html_files fid (length json_files) sample))) s))))"

text \<open>The \<^verbatim>\<open>except\<close> block of step 7: the checkpoint of the directory is written at step
  \<^verbatim>\<open>code_validated\<close> with the error and a failure flag only; the exception is not raised
  again.\<close>

definition step7_failed :: "int \<Rightarrow> exn \<Rightarrow> unit action" where
  "step7_failed fid e =
     cm_save_checkpoint fid ''code_validated''
       (PDict [(''error'', PStr (''Markdown conversion failed: '' @ exn_str e)),
               (''markdown_conversion_failed'', PBool True)])"

definition step7 :: "env \<Rightarrow> html_file list \<Rightarrow> unit action" where
  "step7 E html_files s =
     (case find_markdown (json_loads E) (root s) (None, PNone, PNone) of
        (found, converter_code, analysis) \<Rightarrow>
          if converter_code \<noteq> PNone \<and> analysis \<noteq> PNone then
            (case found of
               None \<Rightarrow> (Inl TypeError, s)
             | Some fid \<Rightarrow>
                 py_seq (py_modify (\<lambda>s. s\<lparr>step7_flow_id := Some fid, markdown_converter_code := converter_code,
                                          content_analysis := analysis\<rparr>))
                (py_seq (flow_output_dir fid)
                        (\<lambda>s. execute_markdown_conversion E fid (step6_flow_id s) s)) s)
          else
            py_bind next_flow_id (\<lambda>fid.
            py_seq (py_modify (\<lambda>s. s\<lparr>step7_flow_id := Some fid, markdown_converter_code := converter_code,
                                     content_analysis := analysis\<rparr>))
           (py_seq (flow_output_dir fid)
                   (py_try (step7_run E html_files fid) (step7_failed fid)))) s)"

definition step7_intermediate :: "unit action" where
  "step7_intermediate s =
     (case step7_flow_id s of
        None \<Rightarrow> (Inr (), s)
      | Some fid \<Rightarrow>
          write_json_at fid ''intermediate_results.json''
            (PDict [(''content_analysis'', content_analysis s),
                    (''markdown_converter_code'', markdown_converter_code s),
                    (''step'', PStr ''step7_markdown_converted''),
                    (''flow_id'', PInt fid)]) s)"

subsection \<open>The whole function\<close>

definition path_in :: "int \<Rightarrow> string \<Rightarrow> pyval" where
  "path_in fid name = PStr (flow_name fid @ ''/'' @ name)"

text \<open>The dictionary the function returns; paths are given from the output root.\<close>

definition final_result :: "bool \<Rightarrow> state \<Rightarrow> pyval" where
  "final_result use_visual s =
     PDict [(''success'', PBool True),
            (''schema_path'', path_in (step4_flow_id s) ''extraction_schema.json''),
            (''code_path'', path_in (step6_flow_id s) ''extraction_code.py''),
            (''intermediate_paths'',
               PDict [(''step1'', path_in (step1_flow_id s) ''intermediate_results.json''),
                      (''step2'', if use_visual \<and> truthy (visual_results s)
                                  then path_in (step2_flow_id s) ''intermediate_results.json'' else PNone),
                      (''step3'', path_in (step3_flow_id s) ''intermediate_results.json''),
                      (''step4'', path_in (step4_flow_id s) ''intermediate_results.json''),
                      (''step5'', path_in (step5_flow_id s) ''intermediate_results.json''),
                      (''step6'', path_in (step6_flow_id s) ''intermediate_results.json''),
                      (''step7'', (case step7_flow_id s of
                                     Some fid \<Rightarrow> path_in fid ''intermediate_results.json''
                                   | None \<Rightarrow> PNone))]),
            (''schema'', json_schema s),
            (''code'', extraction_code s),
            (''flow_directories'',
               PDict [(''step1'', PStr (flow_name (step1_flow_id s))),
                      (''step2'', if use_visual then PStr (flow_name (step2_flow_id s)) else PNone),
                      (''step3'', PStr (flow_name (step3_flow_id s))),
                      (''step4'', PStr (flow_name (step4_flow_id s))),
                      (''step5'', PStr (flow_name (step5_flow_id s))),
                      (''step6'', PStr (flow_name (step6_flow_id s))),
                      (''step7'', (case step7_flow_id s of
                                     Some fid \<Rightarrow> PStr (flow_name fid)
                                   | None \<Rightarrow> PNone))])]"

text \<open>The function up to step 5: the resume scan when \<^verbatim>\<open>resume\<close> is set, then the steps
  that lead to the generated code.\<close>

definition generation :: "env \<Rightarrow> html_file list \<Rightarrow> bool \<Rightarrow> bool \<Rightarrow> unit action" where
  "generation E html_files use_visual resume =
     py_seq (if resume then resume_scan E else py_return ())
    (py_seq (step1 E html_files)
    (py_seq (step2 E html_files use_visual)
    (py_seq (step3 E html_files use_visual)
    (py_seq (step4 E html_files use_visual)
            (step5 E html_files use_visual)))))"

definition pipeline :: "env \<Rightarrow> html_file list \<Rightarrow> bool \<Rightarrow> bool \<Rightarrow> pyval action" where
  "pipeline E html_files use_visual resume =
     py_seq (generation E html_files use_visual resume)
    (py_seq (step6 E html_files use_visual)
    (py_seq (intermediate_results html_files use_visual)
    (py_seq (step7 E html_files)
    (py_seq step7_intermediate
            (\<lambda>s. (Inr (final_result use_visual s), s))))))"

text \<open>\<^verbatim>\<open>_process_html_files\<close> on an output root \<open>r\<close> at time \<open>t\<close>: what it returns or raises,
  and the state it leaves.\<close>

definition process_html_files ::
    "env \<Rightarrow> html_file list \<Rightarrow> bool \<Rightarrow> bool \<Rightarrow> root_dir \<Rightarrow> nat \<Rightarrow> (exn + pyval) \<times> state" where
  "process_html_files E html_files use_visual resume r t =
     pipeline E html_files use_visual resume (init_state r t)"

section \<open>Notions used to state the properties\<close>





text \<open>A directory that holds exactly a checkpoint at the given step with the given data.\<close>

definition checkpoint_dir :: "string \<Rightarrow> string \<Rightarrow> pyval \<Rightarrow> node" where
  "checkpoint_dir step now data =
     Directory [(''checkpoint.json'', File (Doc (make_checkpoint step now data PNone)))]"

text \<open>A json parser that accepts no text, for evaluating runs whose files are all written
  with \<^verbatim>\<open>json.dump\<close>.\<close>

definition parse_nothing :: "string \<Rightarrow> pyval option" where
  "parse_nothing s = None"

text \<open>A name in a directory is free or a file, not a sub-directory: it can be opened for
  writing.\<close>

definition no_folder :: "slot_dir \<Rightarrow> string \<Rightarrow> bool" where
  "no_folder d name = (case map_of d name of Some (Folder fs) \<Rightarrow> False | _ \<Rightarrow> True)"

text \<open>The flow directory of the given id exists and its checkpoint file can be written.\<close>

definition writable_slot :: "state \<Rightarrow> int \<Rightarrow> bool" where
  "writable_slot s fid =
     (case map_of (root s) (flow_name fid) of
        Some (Directory d) \<Rightarrow> no_folder d CHECKPOINT_FILE
      | _ \<Rightarrow> False)"

section \<open>Concrete collaborators, for evaluating runs\<close>

text \<open>
  One input document, and collaborators that answer every call with a small fixed value:
  the analysis of a document names it, the generated code is the text \<^verbatim>\<open>code\<close>, the
  validation finds nothing and offers no fixed code, the extraction writes one result
  file, which the conversion turns into one Markdown file.
\<close>

definition demo_file :: html_file where
  "demo_file = \<lparr>url = None, path = Some ''p/a.html'', content = ''<html/>''\<rparr>"

definition demo_validation :: validation where
  "demo_validation =
     \<lparr>v_valid = True, v_syntax_errors = [], v_robustness_issues = [], v_interface_issues = [],
      v_suggestions = PList [], v_fixed_code = None, v_warnings = []\<rparr>"

definition demo_env :: env where
  "demo_env =
     \<lparr>json_loads = parse_nothing,
      json_dumps = (\<lambda>v. []),
      py_str = (\<lambda>v. []),
      analyze_html_structure = (\<lambda>c i. PDict [(''file'', PStr i)]),
      analyze_html_visually = (\<lambda>c i. PDict [(''visual'', PStr i)]),
      coordinate_analysis = (\<lambda>ids c. Inr (PDict [(''common_patterns'', PList [])])),
      generate_final_schema = (\<lambda>s. PDict [(''sections'', PList [])]),
      build_prompt = (\<lambda>s. Inr (''prompt'', s)),
      api_attempt = (\<lambda>k p. Inr ''code''),
      fallback_rest = (\<lambda>v. []),
      validate_code = (\<lambda>c s. Inr demo_validation),
      fix_booleans = (\<lambda>c. c),
      run_extraction = (\<lambda>c s. Executed [(''a.json'', Doc (PDict [(''title'', PStr ''t'')]))] (Some (PDict []))),
      analyze_content_fields = (\<lambda>rs. PDict [(''main_content_fields'', PList [])]),
      generate_markdown_converter_code = (\<lambda>a s r. Inr ''md''),
      try_compile = (\<lambda>c. Compiled),
      fix_markdown_converter_syntax = (\<lambda>c m. c),
      run_conversion = (\<lambda>c r. Executed [(''a.md'', Raw ''# t'')] (Some (PDict []))),
      glob_json = (\<lambda>fs. fs)\<rparr>"

definition api_error :: exn where
  "api_error = Exn ''APIError'' ''timeout''"

text \<open>A state in which the flow directories 1 to 7 exist and are empty, and the variables
  of the first four steps are set.\<close>

definition demo_state :: state where
  "demo_state =
     (init_state [(''flow1'', Directory []), (''flow2'', Directory []), (''flow3'', Directory []),
                  (''flow4'', Directory []), (''flow5'', Directory []), (''flow6'', Directory []),
                  (''flow7'', Directory [])] 0)
       \<lparr>analysis_results := PList [PDict [(''file'', PStr ''p/a.html'')]],
        visual_results := PList [PDict [(''visual'', PStr ''p/a.html'')]],
        synthesized := PDict [(''common_patterns'', PList [])],
        json_schema := PDict [(''sections'', PList [])],
        extraction_code := PStr ''code''\<rparr>"

section \<open>Properties of the artifact store and of the allocator\<close>

subsection \<open>Slot allocation\<close>

lemma slot_ids_Nil: "slot_ids [] = {}"
  by (simp add: slot_ids_def)

lemma slot_ids_Cons:
  "slot_ids (item # items) =
     (if is_flow_dir item
      then (case py_int (drop 4 (fst item)) of Some n \<Rightarrow> insert n (slot_ids items) | None \<Rightarrow> slot_ids items)
      else slot_ids items)"
proof (cases item)
  case (Pair name nd)
  show ?thesis
  proof (cases nd)
    case Regular
    with Pair show ?thesis by (auto simp: slot_ids_def is_flow_dir_def)
  next
    case (Directory d)
    with Pair show ?thesis
      by (auto simp: slot_ids_def is_flow_dir_def split: option.splits)
  qed
qed

lemma existing_flows_set:
  "set (existing_flows items) = slot_ids items"
  by (induction items) (simp_all add: slot_ids_Nil slot_ids_Cons split: option.splits)

lemma py_max_Max: "xs \<noteq> [] \<Longrightarrow> py_max xs = Max (set xs)"
proof (cases xs)
  case Nil
  assume "xs \<noteq> []" with Nil show ?thesis by simp
next
  case (Cons x ys)
  have c: "(\<lambda>a b. max b a) = (max :: int \<Rightarrow> int \<Rightarrow> int)"
    by (intro ext) (simp add: max.commute)
  have "py_max (x # ys) = fold max ys x"
    by (simp add: py_max_def foldl_conv_fold c)
  also have "\<dots> = Max (set (x # ys))"
    by (rule Max.set_eq_fold [symmetric])
  finally show ?thesis using Cons by simp
qed

text \<open>
  Claim C8. \<^verbatim>\<open>get_next_flow_id\<close> returns 1 when the output root does not exist or holds no
  directory whose name starts with \<^verbatim>\<open>flow\<close> and continues with an integer; otherwise it
  returns the largest such integer plus 1. A name whose tail is no integer is skipped: it
  does not change the result, and the function has no error outcome.
\<close>

theorem next_slot_id_spec:
  "get_next_flow_id None = 1 \<and>
   get_next_flow_id (Some items) =
     (if slot_ids items = {} then 1 else Max (slot_ids items) + 1) \<and>
   (py_int (drop 4 name) = None \<longrightarrow>
      get_next_flow_id (Some ((name, nd) # items)) = get_next_flow_id (Some items))"
proof (intro conjI impI)
  show "get_next_flow_id None = 1"
    by (simp add: get_next_flow_id_def)
next
  have e: "(existing_flows items = []) = (slot_ids items = {})"
    using existing_flows_set [of items] by (metis set_empty)
  show "get_next_flow_id (Some items) =
     (if slot_ids items = {} then 1 else Max (slot_ids items) + 1)"
  proof (cases "existing_flows items = []")
    case True
    then show ?thesis using e by (simp add: get_next_flow_id_def)
  next
    case False
    then show ?thesis
      using e py_max_Max [OF False] by (simp add: get_next_flow_id_def existing_flows_set)
  qed
next
  assume "py_int (drop 4 name) = None"
  then show "get_next_flow_id (Some ((name, nd) # items)) = get_next_flow_id (Some items)"
    by (simp add: get_next_flow_id_def)
qed

theorem next_slot_id_spec_witness:
  "py_int (drop 4 ''flowx'') = None \<and>
   slot_ids [(''flow3'', Directory []), (''flow10'', Regular), (''flow-2'', Directory [])] = {3, -2} \<and>
   get_next_flow_id (Some [(''flowx'', Directory []), (''flow3'', Directory []), (''flow10'', Regular), (''flow-2'', Directory [])]) = 4"
  using next_slot_id_spec [of "[(''flow3'', Directory []), (''flow10'', Regular), (''flow-2'', Directory [])]" "''flowx''" "Directory []"]
  by (simp add: slot_ids_Nil slot_ids_Cons is_flow_dir_def py_int_def py_strip_def py_isspace_def
        parse_nat_def is_digit_def digit_val_def insert_commute)

subsection \<open>Loading a checkpoint\<close>

text \<open>
  Claim C7. \<^verbatim>\<open>load_checkpoint\<close> never raises: it returns \<^verbatim>\<open>None\<close> when the directory has no
  checkpoint file, when the file does not parse, and whenever anything in its \<^verbatim>\<open>try\<close> block
  raises.
\<close>

theorem load_checkpoint_absent:
  "(\<exists>r. load_checkpoint loads d = Inr r) \<and>
   (\<not> path_exists d CHECKPOINT_FILE \<longrightarrow> load_checkpoint loads d = Inr PNone) \<and>
   (map_of d CHECKPOINT_FILE = Some (File (Raw s)) \<and> loads s = None \<longrightarrow>
      load_checkpoint loads d = Inr PNone) \<and>
   ((\<exists>e. load_checkpoint_try loads d = Inl e) \<longrightarrow> load_checkpoint loads d = Inr PNone)"
  by (auto simp: load_checkpoint_def load_checkpoint_try_def read_json_def split: sum.splits)

theorem load_checkpoint_absent_witness:
  "\<not> path_exists [] CHECKPOINT_FILE \<and>
   load_checkpoint (\<lambda>s. None) [] = Inr PNone \<and>
   load_checkpoint_try (\<lambda>s. None) [(''checkpoint.json'', File (Raw ''{\"step\": ''))] = Inl JSONDecodeError \<and>
   load_checkpoint (\<lambda>s. None) [(''checkpoint.json'', File (Raw ''{\"step\": ''))] = Inr PNone \<and>
   load_checkpoint (\<lambda>s. None) [(''checkpoint.json'', File (Doc (PList [])))] = Inr PNone"
  using load_checkpoint_absent [of "\<lambda>s. None" "[]" "[]"]
    load_checkpoint_absent [of "\<lambda>s. None" "[(''checkpoint.json'', File (Raw ''{\"step\": ''))]" "''{\"step\": ''"]
    load_checkpoint_absent [of "\<lambda>s. None" "[(''checkpoint.json'', File (Doc (PList [])))]" "[]"]
  by (simp add: path_exists_def CHECKPOINT_FILE_def load_checkpoint_try_def read_json_def dict_get_def)

subsection \<open>Step results\<close>





subsection \<open>Writing a checkpoint\<close>







section \<open>Evaluation lemmas\<close>

lemma digit_ints:
  "py_int ''1'' = Some 1" "py_int ''2'' = Some 2" "py_int ''3'' = Some 3" "py_int ''4'' = Some 4"
  "py_int ''5'' = Some 5" "py_int ''6'' = Some 6" "py_int ''7'' = Some 7" "py_int ''8'' = Some 8"
  by (simp_all add: py_int_def py_strip_def py_isspace_def parse_nat_def is_digit_def digit_val_def)

lemma flow_names:
  "flow_name 1 = ''flow1''" "flow_name 2 = ''flow2''" "flow_name 3 = ''flow3''"
  "flow_name 4 = ''flow4''" "flow_name 5 = ''flow5''" "flow_name 6 = ''flow6''"
  "flow_name 7 = ''flow7''" "flow_name 8 = ''flow8''"
  by (simp_all add: flow_name_def py_str_int_def nat_digits.simps digit_char_def)

lemma is_flow_dir_Directory [simp]:
  "is_flow_dir (name, Directory d) = prefix ''flow'' name"
  by (simp add: is_flow_dir_def)

lemma is_flow_dir_checkpoint_dir [simp]:
  "is_flow_dir (name, checkpoint_dir step now data) = prefix ''flow'' name"
  by (simp add: is_flow_dir_def checkpoint_dir_def)


lemma make_checkpoint_simps:
  "truthy (make_checkpoint step now data md)"
  "dict_get (make_checkpoint step now data md) ''step'' dflt = Inr (PStr step)"
  "dict_get (make_checkpoint step now data md) ''data'' dflt = Inr data"
  "data_get (make_checkpoint step now (PDict kvs) md) key dflt =
     Inr (case map_of kvs key of Some v \<Rightarrow> v | None \<Rightarrow> dflt)"
  by (simp_all add: make_checkpoint_def dict_get_def data_get_def)

lemmas monad_defs = py_return_def py_raise_def py_bind_def py_seq_def py_try_def py_lift_def
  py_modify_def log_call_def

lemmas fs_eval = slot_of_def set_slot_def next_flow_id_def flow_output_dir_def
  cm_save_checkpoint_def cm_load_checkpoint_def cm_save_step_result_def cm_load_step_result_def
  write_json_at_def write_text_at_def get_flow_output_dir_def get_next_flow_id_def py_max_def
  save_checkpoint_def save_checkpoint_states_def open_w_def put_file_def write_file_def
  save_step_result_def result_filename_def step_result_exists_def path_exists_def
  CHECKPOINT_FILE_def

lemmas step_eval = step1_def step1_run_def step2_def step2_run_def step3_def step3_run_def
  step4_def step4_run_def step5_def step5_completed_def step5_cached_def step5_generate_def
  step6_def step6_run_def step6_validate_def intermediate_results_def
  step7_def step7_run_def step7_generate_def step7_intermediate_def
  execute_extraction_code_def execute_markdown_conversion_def apply_execution_def
  visual_or_empty_def load_checkpoint_def load_checkpoint_try_def read_json_def dict_get_def
  data_get_def dir_of_def generate_extraction_code_def max_retries_def
  has_issues_def has_fixed_code_def add_validation_marker_def validation_marker_def
  load_json_results_def py_contains_def

lemmas demo_defs = demo_env_def demo_file_def demo_validation_def demo_state_def api_error_def
  init_state_def file_identifier_def ids_list_def newline_def parse_nothing_def

lemmas run_eval = process_html_files_def pipeline_def generation_def resume_scan_def step_eval
  monad_defs fs_eval flow_names digit_ints Let_def syntax_loop.simps make_checkpoint_def
  numeral_3_eq_3 demo_defs

section \<open>The scans of the executor\<close>








section \<open>Writing into a flow directory\<close>

lemma writable_slotD:
  "writable_slot s fid \<Longrightarrow> \<exists>d. map_of (root s) (flow_name fid) = Some (Directory d) \<and> no_folder d CHECKPOINT_FILE"
  by (auto simp: writable_slot_def split: option.splits node.splits)

lemma no_folder_cong:
  "map_of d' k = map_of d k \<Longrightarrow> no_folder d' k = no_folder d k"
  by (simp add: no_folder_def)

lemma load_checkpoint_cong:
  "map_of d' CHECKPOINT_FILE = map_of d CHECKPOINT_FILE \<Longrightarrow> load_checkpoint loads d' = load_checkpoint loads d"
  by (simp add: load_checkpoint_def load_checkpoint_try_def read_json_def path_exists_def)

lemma save_step_result_other:
  "result_filename n fn \<noteq> k \<Longrightarrow> map_of (snd (save_step_result pystr d n r fn)) k = map_of d k"
  by (auto simp: save_step_result_def write_file_def open_w_def put_file_def update_conv' Let_def
      split: option.splits entry.splits sum.splits)

lemma write_file_other:
  "write_file d name c = Inr d' \<Longrightarrow> name \<noteq> k \<Longrightarrow> map_of d' k = map_of d k"
  by (auto simp: write_file_def open_w_def put_file_def update_conv' split: option.splits entry.splits)

lemma put_file_other:
  "name \<noteq> k \<Longrightarrow> map_of (put_file d name c) k = map_of d k"
  by (simp add: put_file_def update_conv')

lemma apply_execution_other:
  "folder \<noteq> k \<Longrightarrow> summary_name \<noteq> k \<Longrightarrow> map_of (apply_execution folder summary_name ex d) k = map_of d k"
  by (auto simp: apply_execution_def Let_def update_conv' write_file_other
      split: execution.splits option.splits entry.splits sum.splits)

lemma unlink_file_other:
  "name \<noteq> k \<Longrightarrow> map_of (unlink_file d name) k = map_of d k"
  by (simp add: unlink_file_def delete_conv' split: option.splits entry.splits)

lemma load_saved_checkpoint:
  "no_folder d CHECKPOINT_FILE \<Longrightarrow>
   load_checkpoint loads (save_checkpoint now d step data PNone) = Inr (make_checkpoint step now data PNone)"
  by (auto simp: no_folder_def save_checkpoint_def save_checkpoint_states_def open_w_def put_file_def
      update_conv' load_checkpoint_def load_checkpoint_try_def read_json_def path_exists_def
      make_checkpoint_def dict_get_def
      split: option.splits entry.splits)

lemma result_names_not_checkpoint [simp]:
  "result_filename ''step1_text_analysis'' None \<noteq> CHECKPOINT_FILE"
  "result_filename ''step2_visual_analysis'' None \<noteq> CHECKPOINT_FILE"
  "result_filename ''step3_synthesized'' None \<noteq> CHECKPOINT_FILE"
  "result_filename ''step4_schema'' None \<noteq> CHECKPOINT_FILE"
  "result_filename ''step5_code'' (Some ''extraction_code.py'') \<noteq> CHECKPOINT_FILE"
  by (simp_all add: result_filename_def CHECKPOINT_FILE_def)

lemmas state_defs = slot_of_def set_slot_def cm_save_checkpoint_def cm_save_step_result_def
  write_json_at_def write_text_at_def



lemma step3_run_checkpoint:
  assumes w: "writable_slot s fid" and r: "step3_run E files uv fid s = (Inr (), s')"
  shows "load_checkpoint loads (slot_of s' fid) =
           Inr (make_checkpoint ''synthesized'' (isoformat (clock s))
                  (PDict [(''analysis_results'', analysis_results s),
                          (''visual_results'', visual_or_empty uv s),
                          (''synthesized'', synthesized s'),
                          (''file_identifiers'', ids_list (map file_identifier files))]) PNone)"
proof -
  from w obtain d where d: "map_of (root s) (flow_name fid) = Some (Directory d)"
    and n: "no_folder d CHECKPOINT_FILE"
    using writable_slotD by blast
  have n': "no_folder (snd (save_step_result (py_str E) d ''step3_synthesized'' v None)) CHECKPOINT_FILE" for v
    using n by (simp add: no_folder_cong [OF save_step_result_other])
  show ?thesis
    using r d n'
    by (auto simp: step3_run_def monad_defs state_defs Let_def update_conv' visual_or_empty_def
        load_saved_checkpoint split: sum.splits)
qed

lemma step4_run_checkpoint:
  assumes w: "writable_slot s fid" and r: "step4_run E files uv fid s = (Inr (), s')"
  shows "load_checkpoint loads (slot_of s' fid) =
           Inr (make_checkpoint ''schema'' (isoformat (clock s))
                  (PDict [(''analysis_results'', analysis_results s),
                          (''visual_results'', visual_or_empty uv s),
                          (''synthesized'', synthesized s),
                          (''schema'', json_schema s'),
                          (''file_identifiers'', ids_list (map file_identifier files))]) PNone)"
proof -
  from w obtain d where d: "map_of (root s) (flow_name fid) = Some (Directory d)"
    and n: "no_folder d CHECKPOINT_FILE"
    using writable_slotD by blast
  have n': "no_folder (snd (save_step_result (py_str E) d1 ''step4_schema'' v None)) CHECKPOINT_FILE"
    if "write_file d ''extraction_schema.json'' c = Inr d1" for v c d1
  proof -
    have "map_of d1 CHECKPOINT_FILE = map_of d CHECKPOINT_FILE"
      using write_file_other [OF that, of CHECKPOINT_FILE] by (simp add: CHECKPOINT_FILE_def)
    then have "no_folder d1 CHECKPOINT_FILE"
      using n by (simp add: no_folder_def)
    then show ?thesis
      by (simp add: no_folder_cong [OF save_step_result_other])
  qed
  show ?thesis
    using r d n'
    by (auto simp: step4_run_def monad_defs state_defs Let_def update_conv' visual_or_empty_def
        load_saved_checkpoint split: sum.splits)
qed

lemma open_w_other:
  "open_w d name = Inr d1 \<Longrightarrow> name \<noteq> k \<Longrightarrow> map_of d1 k = map_of d k"
  by (auto simp: open_w_def update_conv' split: option.splits entry.splits)

lemma step5_generate_checkpoint:
  assumes w: "writable_slot s fid" and r: "step5_generate E files uv fid s = (Inr (), s')"
  shows "load_checkpoint loads (slot_of s' fid) =
           Inr (make_checkpoint ''code_generated'' (isoformat (clock s))
                  (PDict [(''analysis_results'', analysis_results s),
                          (''visual_results'', visual_or_empty uv s),
                          (''synthesized'', synthesized s),
                          (''schema'', json_schema s),
                          (''code'', extraction_code s'),
                          (''file_identifiers'', ids_list (map file_identifier files))]) PNone)"
proof -
  from w obtain d where d: "map_of (root s) (flow_name fid) = Some (Directory d)"
    and n: "no_folder d CHECKPOINT_FILE"
    using writable_slotD by blast
  have n': "no_folder (snd (save_step_result (py_str E) (put_file d1 ''extraction_code.py'' c)
                ''step5_code'' v (Some ''extraction_code.py''))) CHECKPOINT_FILE"
    if "open_w d ''extraction_code.py'' = Inr d1" for v c d1
  proof -
    have "map_of d1 CHECKPOINT_FILE = map_of d CHECKPOINT_FILE"
      using open_w_other [OF that, of CHECKPOINT_FILE] by (simp add: CHECKPOINT_FILE_def)
    then have "no_folder (put_file d1 ''extraction_code.py'' c) CHECKPOINT_FILE"
      using n by (simp add: no_folder_def put_file_other CHECKPOINT_FILE_def)
    then show ?thesis
      by (simp add: no_folder_cong [OF save_step_result_other])
  qed
  show ?thesis
    using r d n'
    by (auto simp: step5_generate_def monad_defs state_defs Let_def update_conv' visual_or_empty_def
        load_saved_checkpoint split: sum.splits pyval.splits)
qed

lemma step5_failed_checkpoint:
  assumes w: "writable_slot s fid"
  shows "\<exists>s'. step5_failed files uv fid e s = (Inl e, s') \<and>
           load_checkpoint loads (slot_of s' fid) =
             Inr (make_checkpoint ''schema'' (isoformat (clock s))
                    (PDict [(''analysis_results'', analysis_results s),
                            (''visual_results'', visual_or_empty uv s),
                            (''synthesized'', synthesized s),
                            (''schema'', json_schema s),
                            (''file_identifiers'', ids_list (map file_identifier files)),
                            (''error'', PStr (''Code generation failed: '' @ exn_str e)),
                            (''code_generation_failed'', PBool True)]) PNone)"
proof -
  from w obtain d where d: "map_of (root s) (flow_name fid) = Some (Directory d)"
    and n: "no_folder d CHECKPOINT_FILE"
    using writable_slotD by blast
  have n': "no_folder (unlink_file d ''extraction_code.py'') CHECKPOINT_FILE"
    using n by (simp add: no_folder_def unlink_file_other CHECKPOINT_FILE_def)
  show ?thesis
    using d n'
    by (simp add: step5_failed_def monad_defs state_defs Let_def update_conv' visual_or_empty_def
        load_saved_checkpoint)
qed


lemma py_try_raises:
  "m s = (Inl e, s1) \<Longrightarrow> py_try m h s = h e s1"
  by (simp add: py_try_def)

lemma py_seq_InrE:
  "py_seq m n s = (Inr x, s') \<Longrightarrow> \<exists>s1. m s = (Inr (), s1) \<and> n s1 = (Inr x, s')"
  by (auto simp: py_seq_def py_bind_def split: prod.splits sum.splits)

lemma step6_validate_frame:
  assumes "step6_validate E s = (Inr v, s1)"
  shows "root s1 = root s \<and> clock s1 = clock s \<and> analysis_results s1 = analysis_results s \<and>
         visual_results s1 = visual_results s \<and> synthesized s1 = synthesized s \<and>
         json_schema s1 = json_schema s \<and> validation_result s1 = validation_dict v"
  using assms
  by (auto simp: step6_validate_def monad_defs split: sum.splits if_splits)

lemma step6_run_checkpoint:
  assumes w: "writable_slot s fid" and r: "step6_run E files uv fid s = (Inr (), s')"
  shows "load_checkpoint loads (slot_of s' fid) =
           Inr (make_checkpoint ''code_validated'' (isoformat (clock s))
                  (PDict [(''analysis_results'', analysis_results s),
                          (''visual_results'', visual_or_empty uv s),
                          (''synthesized'', synthesized s),
                          (''schema'', json_schema s),
                          (''code'', extraction_code s'),
                          (''validation'', validation_result s'),
                          (''file_identifiers'', ids_list (map file_identifier files))]) PNone)"
proof -
  from w obtain d where d: "map_of (root s) (flow_name fid) = Some (Directory d)"
    and n: "no_folder d CHECKPOINT_FILE"
    using writable_slotD by blast
  from r obtain v s1 where v: "step6_validate E s = (Inr v, s1)"
    by (auto simp: step6_run_def py_bind_def split: sum.splits prod.splits)
  note f = step6_validate_frame [OF v]
  define rest where "rest = (py_seq (\<lambda>s. write_json_at fid ''code_validation_result.json'' (validation_result s) s)
    (py_seq (\<lambda>s. write_text_at fid ''extraction_code.py'' (extraction_code s) s)
    (py_seq (\<lambda>s. cm_save_checkpoint fid ''code_validated''
                    (PDict [(''analysis_results'', analysis_results s),
                            (''visual_results'', visual_or_empty uv s),
                            (''synthesized'', synthesized s),
                            (''schema'', json_schema s),
                            (''code'', extraction_code s),
                            (''validation'', validation_result s),
                            (''file_identifiers'', ids_list (map file_identifier files))]) s)
            (execute_extraction_code E fid))))"
  have rest_ok: "load_checkpoint loads (slot_of s3 fid) =
           Inr (make_checkpoint ''code_validated'' (isoformat (clock s2))
                  (PDict [(''analysis_results'', analysis_results s2),
                          (''visual_results'', visual_or_empty uv s2),
                          (''synthesized'', synthesized s2),
                          (''schema'', json_schema s2),
                          (''code'', extraction_code s3),
                          (''validation'', validation_result s3),
                          (''file_identifiers'', ids_list (map file_identifier files))]) PNone)"
    if a: "rest s2 = (Inr (), s3)" and b: "root s2 = root s" for s2 s3
  proof -
    have d2: "map_of (root s2) (flow_name fid) = Some (Directory d)" using d b by simp
    have n': "no_folder (put_file d2' ''extraction_code.py'' c) CHECKPOINT_FILE"
      if "write_file d ''code_validation_result.json'' c1 = Inr d1"
        and "open_w d1 ''extraction_code.py'' = Inr d2'" for c c1 d1 d2'
    proof -
      have "map_of d1 CHECKPOINT_FILE = map_of d CHECKPOINT_FILE"
        using write_file_other [OF that(1), of CHECKPOINT_FILE] by (simp add: CHECKPOINT_FILE_def)
      moreover have "map_of d2' CHECKPOINT_FILE = map_of d1 CHECKPOINT_FILE"
        using open_w_other [OF that(2), of CHECKPOINT_FILE] by (simp add: CHECKPOINT_FILE_def)
      ultimately show ?thesis
        using n by (simp add: no_folder_def put_file_other CHECKPOINT_FILE_def)
    qed
    have ex: "load_checkpoint loads (apply_execution ''extraction_results'' ''extraction_results_summary.json'' x dd) =
        load_checkpoint loads dd" for x dd
      by (rule load_checkpoint_cong) (simp add: apply_execution_other CHECKPOINT_FILE_def)
    show ?thesis
      using a d2 n'
      by (auto simp: rest_def monad_defs state_defs execute_extraction_code_def Let_def update_conv'
          visual_or_empty_def load_saved_checkpoint ex split: sum.splits pyval.splits)
  qed
  define mark where "mark = (if \<not> has_fixed_code v
             then py_bind (\<lambda>s. py_lift (add_validation_marker (extraction_code s)) s)
                    (\<lambda>marked. py_modify (\<lambda>s. s\<lparr>extraction_code := marked\<rparr>))
             else py_return ())"
  have "step6_run E files uv fid s = py_seq mark rest s1"
    using v by (simp add: step6_run_def rest_def mark_def py_bind_def py_seq_def)
  with r obtain s2 where m: "mark s1 = (Inr (), s2)" and s2: "rest s2 = (Inr (), s')"
    using py_seq_InrE by metis
  have g: "root s2 = root s1 \<and> clock s2 = clock s1 \<and> analysis_results s2 = analysis_results s1 \<and>
         visual_results s2 = visual_results s1 \<and> synthesized s2 = synthesized s1 \<and>
         json_schema s2 = json_schema s1"
    using m by (auto simp: mark_def monad_defs split: if_splits sum.splits)
  have "root s2 = root s" using g f by simp
  from rest_ok [OF s2 this] show ?thesis
    using g f by (simp add: visual_or_empty_def)
qed







section \<open>What the checkpoints hold, and when a step fails\<close>







section \<open>Code generation that fails\<close>

lemma retry_attempts_all_fail:
  assumes "api_attempt E 0 prompt = Inl e0" "api_attempt E 1 prompt = Inl e1" "api_attempt E 2 prompt = Inl e2"
  shows "retry_attempts E prompt schema max_retries = generate_fallback_code E schema"
  using assms by (simp add: max_retries_def numeral_3_eq_3 numeral_2_eq_2 Let_def)

lemma step5_retries_in_slot:
  assumes c: "extraction_code s = PNone"
    and f: "find_incomplete_step5 (json_loads E) (root s) = Some n"
    and d: "map_of (root s) (flow_name n) = Some (Directory d)"
    and l: "load_checkpoint (json_loads E) d = Inr ckpt"
    and st: "dict_get ckpt ''step'' PNone = Inr (PStr ''schema'')"
  shows "step5 E files uv s =
           py_try (step5_generate E files uv n) (step5_failed files uv n) (s\<lparr>step5_flow_id := n\<rparr>)"
  using c f d l st
  by (simp add: step5_def py_bind_def py_seq_def py_modify_def py_return_def py_lift_def
      flow_output_dir_def get_flow_output_dir_def step5_completed_def cm_load_checkpoint_def
      slot_of_def step5_cached_def)


text \<open>
  C6. A failing API call does not make the code generator raise: when all three attempts
  fail, \<^verbatim>\<open>generate_extraction_code\<close> returns the fallback template, which step 5 saves and
  checkpoints as \<^verbatim>\<open>code_generated\<close>. When the \<^verbatim>\<open>try\<close> block of step 5 does raise, the checkpoint
  of its flow directory is pinned at \<^verbatim>\<open>schema\<close> with the flag \<^verbatim>\<open>code_generation_failed\<close>; and a
  later run that reaches step 5 without extraction code, and whose scan finds that
  directory, runs the \<^verbatim>\<open>try\<close> block again in the directory of the same number.
\<close>

theorem code_generation_retry_in_place:
  "(build_prompt E schema = Inr (prompt, PDict kvs) \<and> api_attempt E 0 prompt = Inl e0 \<and>
    api_attempt E 1 prompt = Inl e1 \<and> api_attempt E 2 prompt = Inl e2 \<longrightarrow>
      generate_extraction_code E schema =
        Inr (PStr (fallback_header @
                   fallback_rest E (case map_of kvs ''sections'' of Some v \<Rightarrow> v | None \<Rightarrow> PList [])))) \<and>
   (step5_generate E files uv fid s = (Inl e, s1) \<and> writable_slot s1 fid \<longrightarrow>
      (\<exists>s2. py_try (step5_generate E files uv fid) (step5_failed files uv fid) s = (Inl e, s2) \<and>
            load_checkpoint loads (slot_of s2 fid) =
              Inr (make_checkpoint ''schema'' (isoformat (clock s1))
                     (PDict [(''analysis_results'', analysis_results s1),
                             (''visual_results'', visual_or_empty uv s1),
                             (''synthesized'', synthesized s1),
                             (''schema'', json_schema s1),
                             (''file_identifiers'', ids_list (map file_identifier files)),
                             (''error'', PStr (''Code generation failed: '' @ exn_str e)),
                             (''code_generation_failed'', PBool True)]) PNone))) \<and>
   (extraction_code s = PNone \<and> find_incomplete_step5 (json_loads E) (root s) = Some n \<and>
    map_of (root s) (flow_name n) = Some (Directory d) \<and>
    load_checkpoint (json_loads E) d = Inr ckpt \<and>
    dict_get ckpt ''step'' PNone = Inr (PStr ''schema'') \<longrightarrow>
      step5 E files uv s =
        py_try (step5_generate E files uv n) (step5_failed files uv n) (s\<lparr>step5_flow_id := n\<rparr>))"
proof (intro conjI impI)
  assume a: "build_prompt E schema = Inr (prompt, PDict kvs) \<and> api_attempt E 0 prompt = Inl e0 \<and>
    api_attempt E 1 prompt = Inl e1 \<and> api_attempt E 2 prompt = Inl e2"
  then have "retry_attempts E prompt (PDict kvs) max_retries = generate_fallback_code E (PDict kvs)"
    using retry_attempts_all_fail by blast
  with a show "generate_extraction_code E schema =
        Inr (PStr (fallback_header @
                   fallback_rest E (case map_of kvs ''sections'' of Some v \<Rightarrow> v | None \<Rightarrow> PList [])))"
    by (simp add: generate_extraction_code_def generate_fallback_code_def dict_get_def)
next
  assume a: "step5_generate E files uv fid s = (Inl e, s1) \<and> writable_slot s1 fid"
  then have "py_try (step5_generate E files uv fid) (step5_failed files uv fid) s =
      step5_failed files uv fid e s1"
    by (simp add: py_try_raises)
  with step5_failed_checkpoint [of s1 fid files uv e loads] a
  show "\<exists>s2. py_try (step5_generate E files uv fid) (step5_failed files uv fid) s = (Inl e, s2) \<and>
            load_checkpoint loads (slot_of s2 fid) =
              Inr (make_checkpoint ''schema'' (isoformat (clock s1))
                     (PDict [(''analysis_results'', analysis_results s1),
                             (''visual_results'', visual_or_empty uv s1),
                             (''synthesized'', synthesized s1),
                             (''schema'', json_schema s1),
                             (''file_identifiers'', ids_list (map file_identifier files)),
                             (''error'', PStr (''Code generation failed: '' @ exn_str e)),
                             (''code_generation_failed'', PBool True)]) PNone)"
    by simp
next
  assume "extraction_code s = PNone \<and> find_incomplete_step5 (json_loads E) (root s) = Some n \<and>
    map_of (root s) (flow_name n) = Some (Directory d) \<and>
    load_checkpoint (json_loads E) d = Inr ckpt \<and>
    dict_get ckpt ''step'' PNone = Inr (PStr ''schema'')"
  then show "step5 E files uv s =
        py_try (step5_generate E files uv n) (step5_failed files uv n) (s\<lparr>step5_flow_id := n\<rparr>)"
    using step5_retries_in_slot by blast
qed

theorem code_generation_retry_in_place_witness:
  "build_prompt (demo_env\<lparr>api_attempt := (\<lambda>k p. Inl api_error)\<rparr>) (PDict [(''sections'', PList [])]) =
     Inr (''prompt'', PDict [(''sections'', PList [])]) \<and>
   api_attempt (demo_env\<lparr>api_attempt := (\<lambda>k p. Inl api_error)\<rparr>) 0 ''prompt'' = Inl api_error \<and>
   api_attempt (demo_env\<lparr>api_attempt := (\<lambda>k p. Inl api_error)\<rparr>) 1 ''prompt'' = Inl api_error \<and>
   api_attempt (demo_env\<lparr>api_attempt := (\<lambda>k p. Inl api_error)\<rparr>) 2 ''prompt'' = Inl api_error \<and>
   generate_extraction_code (demo_env\<lparr>api_attempt := (\<lambda>k p. Inl api_error)\<rparr>) (PDict [(''sections'', PList [])]) =
     Inr (PStr fallback_header) \<and>
   step5_generate (demo_env\<lparr>build_prompt := (\<lambda>schema. Inl api_error)\<rparr>) [demo_file] True 5 demo_state =
     (Inl api_error,
      snd (step5_generate (demo_env\<lparr>build_prompt := (\<lambda>schema. Inl api_error)\<rparr>) [demo_file] True 5 demo_state)) \<and>
   writable_slot
     (snd (step5_generate (demo_env\<lparr>build_prompt := (\<lambda>schema. Inl api_error)\<rparr>) [demo_file] True 5 demo_state)) 5 \<and>
   fst (py_try (step5_generate (demo_env\<lparr>build_prompt := (\<lambda>schema. Inl api_error)\<rparr>) [demo_file] True 5)
          (step5_failed [demo_file] True 5) demo_state) = Inl api_error \<and>
   load_checkpoint parse_nothing
     (slot_of (snd (py_try (step5_generate (demo_env\<lparr>build_prompt := (\<lambda>schema. Inl api_error)\<rparr>) [demo_file] True 5)
                      (step5_failed [demo_file] True 5) demo_state)) 5) =
     Inr (make_checkpoint ''schema'' ''0''
            (PDict [(''analysis_results'', PList [PDict [(''file'', PStr ''p/a.html'')]]),
                    (''visual_results'', PList [PDict [(''visual'', PStr ''p/a.html'')]]),
                    (''synthesized'', PDict [(''common_patterns'', PList [])]),
                    (''schema'', PDict [(''sections'', PList [])]),
                    (''file_identifiers'', PList [PStr ''p/a.html'']),
                    (''error'', PStr ''Code generation failed: timeout''),
                    (''code_generation_failed'', PBool True)]) PNone) \<and>
   extraction_code
     (init_state (root (snd (py_try (step5_generate (demo_env\<lparr>build_prompt := (\<lambda>schema. Inl api_error)\<rparr>)
                                       [demo_file] True 5)
                               (step5_failed [demo_file] True 5) demo_state))) 1) = PNone \<and>
   find_incomplete_step5 (json_loads demo_env)
     (root (init_state (root (snd (py_try (step5_generate (demo_env\<lparr>build_prompt := (\<lambda>schema. Inl api_error)\<rparr>)
                                       [demo_file] True 5)
                               (step5_failed [demo_file] True 5) demo_state))) 1)) = Some 5 \<and>
   step5 demo_env [demo_file] True
     (init_state (root (snd (py_try (step5_generate (demo_env\<lparr>build_prompt := (\<lambda>schema. Inl api_error)\<rparr>)
                                       [demo_file] True 5)
                               (step5_failed [demo_file] True 5) demo_state))) 1) =
   py_try (step5_generate demo_env [demo_file] True 5) (step5_failed [demo_file] True 5)
     ((init_state (root (snd (py_try (step5_generate (demo_env\<lparr>build_prompt := (\<lambda>schema. Inl api_error)\<rparr>)
                                       [demo_file] True 5)
                               (step5_failed [demo_file] True 5) demo_state))) 1)\<lparr>step5_flow_id := 5\<rparr>)"
proof -
  define Ea where "Ea = demo_env\<lparr>api_attempt := (\<lambda>k p. Inl api_error)\<rparr>"
  define E5 where "E5 = demo_env\<lparr>build_prompt := (\<lambda>schema. Inl api_error)\<rparr>"
  define R where "R = root (snd (py_try (step5_generate E5 [demo_file] True 5)
                               (step5_failed [demo_file] True 5) demo_state))"
  define D where "D = [(''checkpoint.json'', File (Doc (make_checkpoint ''schema'' ''0''
            (PDict [(''analysis_results'', PList [PDict [(''file'', PStr ''p/a.html'')]]),
                    (''visual_results'', PList [PDict [(''visual'', PStr ''p/a.html'')]]),
                    (''synthesized'', PDict [(''common_patterns'', PList [])]),
                    (''schema'', PDict [(''sections'', PList [])]),
                    (''file_identifiers'', PList [PStr ''p/a.html'']),
                    (''error'', PStr ''Code generation failed: timeout''),
                    (''code_generation_failed'', PBool True)]) PNone)))]"
  have a: "build_prompt Ea (PDict [(''sections'', PList [])]) = Inr (''prompt'', PDict [(''sections'', PList [])])"
    "api_attempt Ea 0 ''prompt'' = Inl api_error" "api_attempt Ea 1 ''prompt'' = Inl api_error"
    "api_attempt Ea 2 ''prompt'' = Inl api_error"
    "fallback_rest Ea (PList []) = []"
    by (simp_all add: Ea_def demo_env_def)
  have e5: "fst (step5_generate (demo_env\<lparr>build_prompt := (\<lambda>schema. Inl api_error)\<rparr>) [demo_file] True 5 demo_state) =
      Inl api_error"
    by code_simp
  have w5: "writable_slot
     (snd (step5_generate (demo_env\<lparr>build_prompt := (\<lambda>schema. Inl api_error)\<rparr>) [demo_file] True 5 demo_state)) 5"
    by code_simp
  have v: "isoformat 0 = ''0''" "exn_str api_error = ''timeout''"
    "ids_list [file_identifier demo_file] = PList [PStr ''p/a.html'']"
    by code_simp+
  have v5: "clock (snd (step5_generate E5 [demo_file] True 5 demo_state)) = 0"
    "analysis_results (snd (step5_generate E5 [demo_file] True 5 demo_state)) =
       PList [PDict [(''file'', PStr ''p/a.html'')]]"
    "visual_or_empty True (snd (step5_generate E5 [demo_file] True 5 demo_state)) =
       PList [PDict [(''visual'', PStr ''p/a.html'')]]"
    "synthesized (snd (step5_generate E5 [demo_file] True 5 demo_state)) =
       PDict [(''common_patterns'', PList [])]"
    "json_schema (snd (step5_generate E5 [demo_file] True 5 demo_state)) =
       PDict [(''sections'', PList [])]"
    unfolding E5_def by code_simp+
  have r: "find_incomplete_step5 (json_loads demo_env) R = Some 5"
    "map_of R (flow_name 5) = Some (Directory D)"
    "load_checkpoint (json_loads demo_env) D = Inr (make_checkpoint ''schema'' ''0''
            (PDict [(''analysis_results'', PList [PDict [(''file'', PStr ''p/a.html'')]]),
                    (''visual_results'', PList [PDict [(''visual'', PStr ''p/a.html'')]]),
                    (''synthesized'', PDict [(''common_patterns'', PList [])]),
                    (''schema'', PDict [(''sections'', PList [])]),
                    (''file_identifiers'', PList [PStr ''p/a.html'']),
                    (''error'', PStr ''Code generation failed: timeout''),
                    (''code_generation_failed'', PBool True)]) PNone)"
    unfolding R_def E5_def D_def by code_simp+
  note c1 = code_generation_retry_in_place [THEN conjunct1, rule_format,
      where E = Ea and schema = "PDict [(''sections'', PList [])]" and prompt = "''prompt''"
        and kvs = "[(''sections'', PList [])]" and ?e0.0 = api_error and ?e1.0 = api_error
        and ?e2.0 = api_error]
  note c2 = code_generation_retry_in_place [THEN conjunct2, THEN conjunct1, rule_format,
      where E = E5 and files = "[demo_file]" and uv = True and fid = 5 and s = demo_state
        and e = api_error and ?s1.0 = "snd (step5_generate E5 [demo_file] True 5 demo_state)"
        and loads = parse_nothing]
  note c3 = code_generation_retry_in_place [THEN conjunct2, THEN conjunct2, rule_format,
      where E = demo_env and s = "init_state R 1" and n = 5 and d = D and files = "[demo_file]"
        and uv = True
        and ckpt = "make_checkpoint ''schema'' ''0''
            (PDict [(''analysis_results'', PList [PDict [(''file'', PStr ''p/a.html'')]]),
                    (''visual_results'', PList [PDict [(''visual'', PStr ''p/a.html'')]]),
                    (''synthesized'', PDict [(''common_patterns'', PList [])]),
                    (''schema'', PDict [(''sections'', PList [])]),
                    (''file_identifiers'', PList [PStr ''p/a.html'']),
                    (''error'', PStr ''Code generation failed: timeout''),
                    (''code_generation_failed'', PBool True)]) PNone"]
  have r1: "generate_extraction_code Ea (PDict [(''sections'', PList [])]) = Inr (PStr fallback_header)"
    using c1 a by simp
  have r2: "\<exists>s2. py_try (step5_generate E5 [demo_file] True 5) (step5_failed [demo_file] True 5) demo_state =
                   (Inl api_error, s2) \<and>
            load_checkpoint parse_nothing (slot_of s2 5) =
              Inr (make_checkpoint ''schema'' ''0''
            (PDict [(''analysis_results'', PList [PDict [(''file'', PStr ''p/a.html'')]]),
                    (''visual_results'', PList [PDict [(''visual'', PStr ''p/a.html'')]]),
                    (''synthesized'', PDict [(''common_patterns'', PList [])]),
                    (''schema'', PDict [(''sections'', PList [])]),
                    (''file_identifiers'', PList [PStr ''p/a.html'']),
                    (''error'', PStr ''Code generation failed: timeout''),
                    (''code_generation_failed'', PBool True)]) PNone)"
    using c2 e5 w5 by (simp add: prod_eq_iff E5_def [symmetric] v v5)
  have r3: "step5 demo_env [demo_file] True (init_state R 1) =
      py_try (step5_generate demo_env [demo_file] True 5) (step5_failed [demo_file] True 5)
        ((init_state R 1)\<lparr>step5_flow_id := 5\<rparr>)"
    using c3 r by (simp add: init_state_def make_checkpoint_simps)
  show ?thesis
    using a r1 r2 r3 e5 w5 r(1)
    by (auto simp: prod_eq_iff Ea_def [symmetric] E5_def [symmetric] R_def [symmetric] init_state_def)
qed

theorem api_failure_counterexample:
  "load_checkpoint parse_nothing
     (slot_of (snd (process_html_files (demo_env\<lparr>api_attempt := (\<lambda>k p. Inl api_error)\<rparr>)
                      [demo_file] True False [] 0)) 5) =
     Inr (make_checkpoint ''code_generated'' ''4''
            (PDict [(''analysis_results'', PList [PDict [(''file'', PStr ''p/a.html'')]]),
                    (''visual_results'', PList [PDict [(''visual'', PStr ''p/a.html'')]]),
                    (''synthesized'', PDict [(''common_patterns'', PList [])]),
                    (''schema'', PDict [(''sections'', PList [])]),
                    (''code'', PStr fallback_header),
                    (''file_identifiers'', PList [PStr ''p/a.html''])]) PNone)"
  by code_simp

section \<open>A run without visual analysis\<close>

lemma no_folder_save_step_result:
  "result_filename n fn \<noteq> k \<Longrightarrow> no_folder (snd (save_step_result pystr d n r fn)) k = no_folder d k"
  by (simp add: no_folder_cong [OF save_step_result_other])

lemma no_folder_put_file:
  "name \<noteq> k \<Longrightarrow> no_folder (put_file d name c) k = no_folder d k"
  by (simp add: no_folder_def put_file_other)

lemma no_folder_Nil:
  "no_folder [] k"
  by (simp add: no_folder_def)

lemma no_folder_Cons_File:
  "no_folder ((n, File c) # d) k = (n = k \<or> no_folder d k)"
  by (simp add: no_folder_def)

lemma load_checkpoint_empty:
  "load_checkpoint loads [] = Inr PNone"
  by (simp add: load_checkpoint_def path_exists_def)

lemma path_exists_save_checkpoint:
  "name \<noteq> CHECKPOINT_FILE \<Longrightarrow> path_exists (save_checkpoint now d step data md) name = path_exists d name"
  by (auto simp: save_checkpoint_def save_checkpoint_states_def open_w_def put_file_def path_exists_def
      update_conv' split: option.splits entry.splits sum.splits)

lemmas sym_eval = generation_def resume_scan_def
  step1_def step1_run_def step2_def step3_def step3_run_def step4_def step4_run_def
  step5_def step5_completed_def step5_cached_def step5_generate_def
  monad_defs slot_of_def set_slot_def next_flow_id_def flow_output_dir_def
  cm_save_checkpoint_def cm_load_checkpoint_def cm_save_step_result_def
  write_json_at_def write_text_at_def get_flow_output_dir_def get_next_flow_id_def py_max_def
  open_w_def write_file_def step_result_exists_def path_exists_def result_filename_def
  visual_or_empty_def dir_of_def init_state_def Let_def flow_names digit_ints
  load_saved_checkpoint no_folder_save_step_result no_folder_put_file load_checkpoint_empty
  no_folder_Nil no_folder_Cons_File make_checkpoint_simps CHECKPOINT_FILE_def

lemma generation_without_visual:
  assumes syn: "coordinate_analysis E (map file_identifier files)
                  (PDict [(''text_analysis'',
                           PList (map (\<lambda>f. analyze_html_structure E (content f) (file_identifier f)) files)),
                          (''visual_analysis'', PList [])]) = Inr syn"
    and code: "generate_extraction_code E (generate_final_schema E syn) = Inr (PStr code)"
  shows "\<exists>s'. generation E files False resume (init_state [] t) = (Inr (), s') \<and>
           calls s' = map (\<lambda>f. Analyze (content f) (file_identifier f)) files @
             [CoordinateAnalysis (map file_identifier files)
                (PDict [(''text_analysis'',
                         PList (map (\<lambda>f. analyze_html_structure E (content f) (file_identifier f)) files)),
                        (''visual_analysis'', PList [])]),
              GenerateFinalSchema syn,
              GenerateExtractionCode (generate_final_schema E syn)] \<and>
           visual_results s' = PList [] \<and>
           json_schema s' = generate_final_schema E syn \<and>
           extraction_code s' = PStr code \<and>
           map fst (root s') = [''flow1'', ''flow2'', ''flow3'', ''flow4''] \<and>
           load_checkpoint loads (slot_of s' 2) =
             Inr (make_checkpoint ''synthesized'' (isoformat (Suc t))
                    (PDict [(''analysis_results'',
                             PList (map (\<lambda>f. analyze_html_structure E (content f) (file_identifier f)) files)),
                            (''visual_results'', PList []),
                            (''synthesized'', syn),
                            (''file_identifiers'', ids_list (map file_identifier files))]) PNone) \<and>
           load_checkpoint loads (slot_of s' 3) =
             Inr (make_checkpoint ''schema'' (isoformat (Suc (Suc t)))
                    (PDict [(''analysis_results'',
                             PList (map (\<lambda>f. analyze_html_structure E (content f) (file_identifier f)) files)),
                            (''visual_results'', PList []),
                            (''synthesized'', syn),
                            (''schema'', generate_final_schema E syn),
                            (''file_identifiers'', ids_list (map file_identifier files))]) PNone) \<and>
           load_checkpoint loads (slot_of s' 4) =
             Inr (make_checkpoint ''code_generated'' (isoformat (Suc (Suc (Suc t))))
                    (PDict [(''analysis_results'',
                             PList (map (\<lambda>f. analyze_html_structure E (content f) (file_identifier f)) files)),
                            (''visual_results'', PList []),
                            (''synthesized'', syn),
                            (''schema'', generate_final_schema E syn),
                            (''code'', PStr code),
                            (''file_identifiers'', ids_list (map file_identifier files))]) PNone)"
  using syn code
  by (simp add: sym_eval)


lemma checkpoint_records_no_visual:
  assumes w: "writable_slot s fid"
    and r: "step3_run E files False fid s = (Inr (), s') \<or> step4_run E files False fid s = (Inr (), s') \<or>
            step5_generate E files False fid s = (Inr (), s') \<or> step6_run E files False fid s = (Inr (), s')"
  shows "\<exists>c. load_checkpoint loads (slot_of s' fid) = Inr c \<and>
             data_get c ''visual_results'' PNone = Inr (PList [])"
  using r step3_run_checkpoint [OF w, of E files False s' loads]
    step4_run_checkpoint [OF w, of E files False s' loads]
    step5_generate_checkpoint [OF w, of E files False s' loads]
    step6_run_checkpoint [OF w, of E files False s' loads]
  by (auto simp: make_checkpoint_simps visual_or_empty_def)

text \<open>
  C9. With visual analysis disabled, step 2 calls no agent and sets the visual results to
  the empty list, whatever they were; the checkpoints that steps 3 to 6 write record the
  visual results as the empty list; and a run on an empty output root in which the
  synthesis and the code generation return goes through the schema and the code
  generation, calls no visual analysis, hands the synthesis the empty list as visual
  analysis and leaves the checkpoints of steps 3, 4 and 5 with the empty list as visual
  results.
\<close>

theorem visual_disabled_gap_tolerance:
  "step2 E files False s = (Inr (), s\<lparr>visual_results := PList []\<rparr>) \<and>
   (writable_slot s fid \<and>
    (step3_run E files False fid s = (Inr (), s1) \<or> step4_run E files False fid s = (Inr (), s1) \<or>
     step5_generate E files False fid s = (Inr (), s1) \<or> step6_run E files False fid s = (Inr (), s1)) \<longrightarrow>
      (\<exists>c. load_checkpoint loads (slot_of s1 fid) = Inr c \<and>
            data_get c ''visual_results'' PNone = Inr (PList []))) \<and>
   (coordinate_analysis E (map file_identifier files)
       (PDict [(''text_analysis'',
                PList (map (\<lambda>f. analyze_html_structure E (content f) (file_identifier f)) files)),
               (''visual_analysis'', PList [])]) = Inr syn \<and>
    generate_extraction_code E (generate_final_schema E syn) = Inr (PStr code) \<longrightarrow>
      (\<exists>s'. generation E files False resume (init_state [] t) = (Inr (), s') \<and>
           calls s' = map (\<lambda>f. Analyze (content f) (file_identifier f)) files @
             [CoordinateAnalysis (map file_identifier files)
                (PDict [(''text_analysis'',
                         PList (map (\<lambda>f. analyze_html_structure E (content f) (file_identifier f)) files)),
                        (''visual_analysis'', PList [])]),
              GenerateFinalSchema syn,
              GenerateExtractionCode (generate_final_schema E syn)] \<and>
           visual_results s' = PList [] \<and>
           json_schema s' = generate_final_schema E syn \<and>
           extraction_code s' = PStr code \<and>
           map fst (root s') = [''flow1'', ''flow2'', ''flow3'', ''flow4''] \<and>
           load_checkpoint loads (slot_of s' 2) =
             Inr (make_checkpoint ''synthesized'' (isoformat (Suc t))
                    (PDict [(''analysis_results'',
                             PList (map (\<lambda>f. analyze_html_structure E (content f) (file_identifier f)) files)),
                            (''visual_results'', PList []),
                            (''synthesized'', syn),
                            (''file_identifiers'', ids_list (map file_identifier files))]) PNone) \<and>
           load_checkpoint loads (slot_of s' 3) =
             Inr (make_checkpoint ''schema'' (isoformat (Suc (Suc t)))
                    (PDict [(''analysis_results'',
                             PList (map (\<lambda>f. analyze_html_structure E (content f) (file_identifier f)) files)),
                            (''visual_results'', PList []),
                            (''synthesized'', syn),
                            (''schema'', generate_final_schema E syn),
                            (''file_identifiers'', ids_list (map file_identifier files))]) PNone) \<and>
           load_checkpoint loads (slot_of s' 4) =
             Inr (make_checkpoint ''code_generated'' (isoformat (Suc (Suc (Suc t))))
                    (PDict [(''analysis_results'',
                             PList (map (\<lambda>f. analyze_html_structure E (content f) (file_identifier f)) files)),
                            (''visual_results'', PList []),
                            (''synthesized'', syn),
                            (''schema'', generate_final_schema E syn),
                            (''code'', PStr code),
                            (''file_identifiers'', ids_list (map file_identifier files))]) PNone)))"
proof (intro conjI impI)
  show "step2 E files False s = (Inr (), s\<lparr>visual_results := PList []\<rparr>)"
    by (simp add: step2_def)
next
  assume "writable_slot s fid \<and>
    (step3_run E files False fid s = (Inr (), s1) \<or> step4_run E files False fid s = (Inr (), s1) \<or>
     step5_generate E files False fid s = (Inr (), s1) \<or> step6_run E files False fid s = (Inr (), s1))"
  then show "\<exists>c. load_checkpoint loads (slot_of s1 fid) = Inr c \<and>
            data_get c ''visual_results'' PNone = Inr (PList [])"
    using checkpoint_records_no_visual by blast
next
  assume "coordinate_analysis E (map file_identifier files)
       (PDict [(''text_analysis'',
                PList (map (\<lambda>f. analyze_html_structure E (content f) (file_identifier f)) files)),
               (''visual_analysis'', PList [])]) = Inr syn \<and>
    generate_extraction_code E (generate_final_schema E syn) = Inr (PStr code)"
  then show "(\<exists>s'. generation E files False resume (init_state [] t) = (Inr (), s') \<and>
           calls s' = map (\<lambda>f. Analyze (content f) (file_identifier f)) files @
             [CoordinateAnalysis (map file_identifier files)
                (PDict [(''text_analysis'',
                         PList (map (\<lambda>f. analyze_html_structure E (content f) (file_identifier f)) files)),
                        (''visual_analysis'', PList [])]),
              GenerateFinalSchema syn,
              GenerateExtractionCode (generate_final_schema E syn)] \<and>
           visual_results s' = PList [] \<and>
           json_schema s' = generate_final_schema E syn \<and>
           extraction_code s' = PStr code \<and>
           map fst (root s') = [''flow1'', ''flow2'', ''flow3'', ''flow4''] \<and>
           load_checkpoint loads (slot_of s' 2) =
             Inr (make_checkpoint ''synthesized'' (isoformat (Suc t))
                    (PDict [(''analysis_results'',
                             PList (map (\<lambda>f. analyze_html_structure E (content f) (file_identifier f)) files)),
                            (''visual_results'', PList []),
                            (''synthesized'', syn),
                            (''file_identifiers'', ids_list (map file_identifier files))]) PNone) \<and>
           load_checkpoint loads (slot_of s' 3) =
             Inr (make_checkpoint ''schema'' (isoformat (Suc (Suc t)))
                    (PDict [(''analysis_results'',
                             PList (map (\<lambda>f. analyze_html_structure E (content f) (file_identifier f)) files)),
                            (''visual_results'', PList []),
                            (''synthesized'', syn),
                            (''schema'', generate_final_schema E syn),
                            (''file_identifiers'', ids_list (map file_identifier files))]) PNone) \<and>
           load_checkpoint loads (slot_of s' 4) =
             Inr (make_checkpoint ''code_generated'' (isoformat (Suc (Suc (Suc t))))
                    (PDict [(''analysis_results'',
                             PList (map (\<lambda>f. analyze_html_structure E (content f) (file_identifier f)) files)),
                            (''visual_results'', PList []),
                            (''synthesized'', syn),
                            (''schema'', generate_final_schema E syn),
                            (''code'', PStr code),
                            (''file_identifiers'', ids_list (map file_identifier files))]) PNone))"
    using generation_without_visual by blast
qed

theorem visual_disabled_gap_tolerance_witness:
  "writable_slot demo_state 3 \<and>
   step3_run demo_env [demo_file] False 3 demo_state =
     (Inr (), snd (step3_run demo_env [demo_file] False 3 demo_state)) \<and>
   data_get (projr (load_checkpoint parse_nothing
                      (slot_of (snd (step3_run demo_env [demo_file] False 3 demo_state)) 3)))
      ''visual_results'' PNone = Inr (PList []) \<and>
   coordinate_analysis demo_env (map file_identifier [demo_file])
       (PDict [(''text_analysis'',
                PList (map (\<lambda>f. analyze_html_structure demo_env (content f) (file_identifier f)) [demo_file])),
               (''visual_analysis'', PList [])]) = Inr (PDict [(''common_patterns'', PList [])]) \<and>
   generate_extraction_code demo_env (generate_final_schema demo_env (PDict [(''common_patterns'', PList [])])) =
     Inr (PStr ''code'') \<and>
   fst (generation demo_env [demo_file] False False (init_state [] 0)) = Inr () \<and>
   visual_results (snd (generation demo_env [demo_file] False False (init_state [] 0))) = PList [] \<and>
   json_schema (snd (generation demo_env [demo_file] False False (init_state [] 0))) =
     PDict [(''sections'', PList [])] \<and>
   extraction_code (snd (generation demo_env [demo_file] False False (init_state [] 0))) = PStr ''code'' \<and>
   load_checkpoint parse_nothing (slot_of (snd (generation demo_env [demo_file] False False (init_state [] 0))) 4) =
     Inr (make_checkpoint ''code_generated'' ''3''
            (PDict [(''analysis_results'', PList [PDict [(''file'', PStr ''p/a.html'')]]),
                    (''visual_results'', PList []),
                    (''synthesized'', PDict [(''common_patterns'', PList [])]),
                    (''schema'', PDict [(''sections'', PList [])]),
                    (''code'', PStr ''code''),
                    (''file_identifiers'', PList [PStr ''p/a.html''])]) PNone)"
proof -
  have w: "writable_slot demo_state 3"
    by code_simp
  have e3: "fst (step3_run demo_env [demo_file] False 3 demo_state) = Inr ()"
    by code_simp
  have h1: "coordinate_analysis demo_env (map file_identifier [demo_file])
       (PDict [(''text_analysis'',
                PList (map (\<lambda>f. analyze_html_structure demo_env (content f) (file_identifier f)) [demo_file])),
               (''visual_analysis'', PList [])]) = Inr (PDict [(''common_patterns'', PList [])])"
    by (simp add: demo_env_def)
  have h2: "generate_extraction_code demo_env (generate_final_schema demo_env (PDict [(''common_patterns'', PList [])])) =
     Inr (PStr ''code'')"
    by code_simp
  have v: "isoformat (Suc (Suc (Suc 0))) = ''3''"
    "generate_final_schema demo_env (PDict [(''common_patterns'', PList [])]) = PDict [(''sections'', PList [])]"
    "analyze_html_structure demo_env (content demo_file) (file_identifier demo_file) =
       PDict [(''file'', PStr ''p/a.html'')]"
    "ids_list [file_identifier demo_file] = PList [PStr ''p/a.html'']"
    by code_simp+
  note c2 = visual_disabled_gap_tolerance [THEN conjunct2, THEN conjunct1, rule_format,
      where s = demo_state and fid = 3 and E = demo_env and files = "[demo_file]"
        and ?s1.0 = "snd (step3_run demo_env [demo_file] False 3 demo_state)" and loads = parse_nothing]
  note c3 = visual_disabled_gap_tolerance [THEN conjunct2, THEN conjunct2, rule_format,
      where E = demo_env and files = "[demo_file]" and syn = "PDict [(''common_patterns'', PList [])]"
        and code = "''code''" and resume = False and t = 0 and loads = parse_nothing]
  have r2: "data_get (projr (load_checkpoint parse_nothing
                      (slot_of (snd (step3_run demo_env [demo_file] False 3 demo_state)) 3)))
      ''visual_results'' PNone = Inr (PList [])"
    using c2 w e3 by (auto simp: prod_eq_iff)
  have r3: "\<exists>s'. generation demo_env [demo_file] False False (init_state [] 0) = (Inr (), s') \<and>
      visual_results s' = PList [] \<and> json_schema s' = PDict [(''sections'', PList [])] \<and>
      extraction_code s' = PStr ''code'' \<and>
      load_checkpoint parse_nothing (slot_of s' 4) =
        Inr (make_checkpoint ''code_generated'' ''3''
            (PDict [(''analysis_results'', PList [PDict [(''file'', PStr ''p/a.html'')]]),
                    (''visual_results'', PList []),
                    (''synthesized'', PDict [(''common_patterns'', PList [])]),
                    (''schema'', PDict [(''sections'', PList [])]),
                    (''code'', PStr ''code''),
                    (''file_identifiers'', PList [PStr ''p/a.html''])]) PNone)"
    using c3 h1 h2 by (auto simp: v)
  show ?thesis
    using w e3 r2 h1 h2 r3 by (auto simp: prod_eq_iff)
qed

end
